theory Spec2Isabelle
  imports Complex_Main "HOL-Library.Char_ord" "HOL-Library.List_Lexorder"
begin

section \<open>Numeric cells of a data frame\<close>

text \<open>
  The scripts compute on pandas/numpy \<open>float64\<close> columns. A cell is modelled as a
  real number or one of the three special values that the arithmetic of the scripts can
  produce and that pandas treats specially: \<open>+inf\<close>, \<open>-inf\<close> and \<open>NaN\<close> (which is also
  how pandas stores a missing value). Finite arithmetic is exact (binary rounding error
  and overflow of finite values are not modelled), the special values follow IEEE 754.
\<close>

datatype fl = Val real | PInf | NInf | NaN

fun fl_neg :: "fl \<Rightarrow> fl" where
  "fl_neg (Val x) = Val (- x)"
| "fl_neg PInf = NInf"
| "fl_neg NInf = PInf"
| "fl_neg NaN = NaN"

fun fl_add :: "fl \<Rightarrow> fl \<Rightarrow> fl" where
  "fl_add (Val x) (Val y) = Val (x + y)"
| "fl_add NaN _ = NaN"
| "fl_add _ NaN = NaN"
| "fl_add PInf NInf = NaN"
| "fl_add NInf PInf = NaN"
| "fl_add PInf _ = PInf"
| "fl_add _ PInf = PInf"
| "fl_add NInf _ = NInf"
| "fl_add _ NInf = NInf"

definition fl_sub :: "fl \<Rightarrow> fl \<Rightarrow> fl" where
  "fl_sub a b = fl_add a (fl_neg b)"

text \<open>Sign of an infinite cell scaled by a finite factor; \<open>inf * 0\<close> is \<open>NaN\<close>.\<close>

definition inf_times :: "bool \<Rightarrow> real \<Rightarrow> fl" where
  "inf_times pos y = (if y = 0 then NaN else if (0 < y) = pos then PInf else NInf)"

fun fl_mul :: "fl \<Rightarrow> fl \<Rightarrow> fl" where
  "fl_mul (Val x) (Val y) = Val (x * y)"
| "fl_mul NaN _ = NaN"
| "fl_mul _ NaN = NaN"
| "fl_mul PInf (Val y) = inf_times True y"
| "fl_mul NInf (Val y) = inf_times False y"
| "fl_mul (Val x) PInf = inf_times True x"
| "fl_mul (Val x) NInf = inf_times False x"
| "fl_mul PInf PInf = PInf"
| "fl_mul NInf NInf = PInf"
| "fl_mul PInf NInf = NInf"
| "fl_mul NInf PInf = NInf"

text \<open>
  Division as numpy does it on \<open>float64\<close> (and as pandas does it on integer columns,
  which it divides as floats): no exception for a zero denominator, but \<open>x / 0\<close> is
  \<open>+inf\<close> or \<open>-inf\<close> by the sign of \<open>x\<close>, and \<open>0 / 0\<close> is \<open>NaN\<close>. The denominators
  of the scripts are sums of non-negative columns, so a zero denominator is \<open>+0\<close>.
\<close>

fun fl_div :: "fl \<Rightarrow> fl \<Rightarrow> fl" where
  "fl_div (Val x) (Val y) =
     (if y \<noteq> 0 then Val (x / y)
      else if 0 < x then PInf else if x < 0 then NInf else NaN)"
| "fl_div NaN _ = NaN"
| "fl_div _ NaN = NaN"
| "fl_div (Val x) PInf = Val 0"
| "fl_div (Val x) NInf = Val 0"
| "fl_div PInf (Val y) = (if 0 \<le> y then PInf else NInf)"
| "fl_div NInf (Val y) = (if 0 \<le> y then NInf else PInf)"
| "fl_div PInf PInf = NaN"
| "fl_div PInf NInf = NaN"
| "fl_div NInf PInf = NaN"
| "fl_div NInf NInf = NaN"

fun fl_abs :: "fl \<Rightarrow> fl" where
  "fl_abs (Val x) = Val \<bar>x\<bar>"
| "fl_abs PInf = PInf"
| "fl_abs NInf = PInf"
| "fl_abs NaN = NaN"

text \<open>Comparisons: every comparison with \<open>NaN\<close> is false.\<close>

fun fl_le :: "fl \<Rightarrow> fl \<Rightarrow> bool" where
  "fl_le (Val x) (Val y) = (x \<le> y)"
| "fl_le NaN _ = False"
| "fl_le _ NaN = False"
| "fl_le NInf _ = True"
| "fl_le _ PInf = True"
| "fl_le PInf _ = False"
| "fl_le _ NInf = False"

fun fl_lt :: "fl \<Rightarrow> fl \<Rightarrow> bool" where
  "fl_lt (Val x) (Val y) = (x < y)"
| "fl_lt NaN _ = False"
| "fl_lt _ NaN = False"
| "fl_lt PInf _ = False"
| "fl_lt _ NInf = False"
| "fl_lt NInf _ = True"
| "fl_lt _ PInf = True"

definition fl_ge :: "fl \<Rightarrow> fl \<Rightarrow> bool" where
  "fl_ge a b = fl_le b a"

definition fl_gt :: "fl \<Rightarrow> fl \<Rightarrow> bool" where
  "fl_gt a b = fl_lt b a"

text \<open>\<open>Series.fillna(v)\<close>: only \<open>NaN\<close> is replaced, an infinite cell is kept.\<close>

fun fillna :: "real \<Rightarrow> fl \<Rightarrow> fl" where
  "fillna v NaN = Val v"
| "fillna v x = x"

text \<open>\<open>Series.replace([np.inf, -np.inf], v)\<close>.\<close>

fun replace_inf :: "real \<Rightarrow> fl \<Rightarrow> fl" where
  "replace_inf v PInf = Val v"
| "replace_inf v NInf = Val v"
| "replace_inf v x = x"

text \<open>\<open>np.clip(x, lo, hi)\<close> and \<open>Series.clip(lo, hi)\<close>: \<open>NaN\<close> stays \<open>NaN\<close>.\<close>

fun clip :: "fl \<Rightarrow> real \<Rightarrow> real \<Rightarrow> fl" where
  "clip (Val x) lo hi = Val (min (max x lo) hi)"
| "clip PInf lo hi = Val hi"
| "clip NInf lo hi = Val lo"
| "clip NaN lo hi = NaN"

text \<open>
  Rounding to \<open>d\<close> decimals as \<open>np.round\<close> and \<open>Series.round\<close> do it: scale, round to
  the nearest integer with ties to the even one, scale back.
\<close>

definition rint :: "real \<Rightarrow> int" where
  "rint x = (let f = \<lfloor>x\<rfloor>; r = x - of_int f in
     if r < 1/2 then f else if 1/2 < r then f + 1 else if even f then f else f + 1)"

fun round_dp :: "nat \<Rightarrow> fl \<Rightarrow> fl" where
  "round_dp d (Val x) = Val (of_int (rint (x * 10 ^ d)) / 10 ^ d)"
| "round_dp d x = x"

fun is_finite :: "fl \<Rightarrow> bool" where
  "is_finite (Val x) = True"
| "is_finite _ = False"

section \<open>Labelers\<close>

text \<open>\<open>school_coverage_model.py\<close>: \<open>score_to_label\<close>, \<open>score_to_status\<close>.\<close>

definition score_to_label :: "fl \<Rightarrow> string" where
  "score_to_label score =
     (if fl_ge score (Val 80) then ''Excellent Coverage''
      else if fl_ge score (Val 60) then ''Good Coverage''
      else ''Needs Improvement'')"

definition score_to_status :: "fl \<Rightarrow> string" where
  "score_to_status score =
     (if fl_ge score (Val 80) then ''excellent''
      else if fl_ge score (Val 60) then ''good''
      else ''needs-improvement'')"

text \<open>\<open>urban_coverage_model.py\<close> has its own copies of the two functions.\<close>

definition urban_score_to_label :: "fl \<Rightarrow> string" where
  "urban_score_to_label score =
     (if fl_ge score (Val 80) then ''Excellent Coverage''
      else if fl_ge score (Val 60) then ''Good Coverage''
      else ''Needs Improvement'')"

definition urban_score_to_status :: "fl \<Rightarrow> string" where
  "urban_score_to_status score =
     (if fl_ge score (Val 80) then ''excellent''
      else if fl_ge score (Val 60) then ''good''
      else ''needs-improvement'')"

text \<open>\<open>hospital_coverage_model.py\<close>: \<open>assign_label\<close> inside \<open>label_zones\<close>.\<close>

definition assign_label :: "fl \<Rightarrow> string \<times> string" where
  "assign_label score =
     (if fl_ge score (Val 75) then (''Excellent Coverage'', ''excellent'')
      else if fl_ge score (Val 50) then (''Good Coverage'', ''good'')
      else (''Needs Improvement'', ''needs-improvement''))"

text \<open>\<open>park_coverage_model.py\<close>: \<open>get_label_and_status\<close> inside \<open>assign_labels\<close>.\<close>

definition get_label_and_status :: "fl \<Rightarrow> string \<times> string" where
  "get_label_and_status score =
     (if fl_ge score (Val 75) then (''Excellent Coverage'', ''excellent'')
      else if fl_ge score (Val 40) then (''Good Coverage'', ''good'')
      else (''Needs Improvement'', ''needs-improvement''))"

text \<open>The order of the tiers: Needs Improvement, then Good, then Excellent.\<close>

definition label_tier :: "string \<Rightarrow> nat" where
  "label_tier l =
     (if l = ''Excellent Coverage'' then 2 else if l = ''Good Coverage'' then 1 else 0)"

definition status_tier :: "string \<Rightarrow> nat" where
  "status_tier s = (if s = ''excellent'' then 2 else if s = ''good'' then 1 else 0)"

section \<open>Shared helpers\<close>

text \<open>\<open>int(x)\<close> of Python on a float: truncation towards zero.\<close>

definition py_int :: "real \<Rightarrow> int" where
  "py_int x = (if 0 \<le> x then \<lfloor>x\<rfloor> else \<lceil>x\<rceil>)"

text \<open>\<open>str(n)\<close> and the format \<open>f"{n:02d}"\<close> for a non-negative integer.\<close>

function string_of_nat :: "nat \<Rightarrow> string" where
  "string_of_nat n =
     (if n < 10 then [''0123456789'' ! n]
      else string_of_nat (n div 10) @ [''0123456789'' ! (n mod 10)])"
  by pat_completeness auto
termination
  by (relation "measure id") auto

definition format_02d :: "nat \<Rightarrow> string" where
  "format_02d n = (let s = string_of_nat n in replicate (2 - length s) CHR ''0'' @ s)"

text \<open>
  \<open>DataFrame.groupby(key)\<close>: one group per distinct key, groups in ascending order of
  the key, each group holding its rows in their original order. \<open>mean\<close> is only taken
  of a group, which has at least one row.
\<close>

definition group_keys :: "('r \<Rightarrow> string) \<Rightarrow> 'r list \<Rightarrow> string list" where
  "group_keys key rows = sort (remdups (map key rows))"

definition groupby :: "('r \<Rightarrow> string) \<Rightarrow> 'r list \<Rightarrow> (string \<times> 'r list) list" where
  "groupby key rows = map (\<lambda>k. (k, filter (\<lambda>r. key r = k) rows)) (group_keys key rows)"

definition col_mean :: "('r \<Rightarrow> real) \<Rightarrow> 'r list \<Rightarrow> real" where
  "col_mean f rs = sum_list (map f rs) / real (length rs)"

text \<open>Assignment through a boolean mask: \<open>df.loc[mask, col] = ...\<close>.\<close>

definition set_where :: "('r \<Rightarrow> bool) \<Rightarrow> ('r \<Rightarrow> 'r) \<Rightarrow> 'r list \<Rightarrow> 'r list" where
  "set_where sel upd rows = map (\<lambda>r. if sel r then upd r else r) rows"

text \<open>
  The pseudo-random generator of numpy. Its algorithm is not part of the repository: it
  is a parameter \<open>mt\<close> that gives, for a seed, the sequence of raw draws. The state of
  the process-wide generator is the sequence it runs on and the position in it.
  \<open>np.random.seed(s)\<close> restarts the generator, \<open>np.random.randint(lo, hi)\<close> yields an
  integer in \<open>[lo, hi)\<close> computed from the next raw draw, and
  \<open>np.random.uniform(lo, hi)\<close> a number in \<open>[lo, hi)\<close>.
\<close>

record rng_state =
  draws :: "nat \<Rightarrow> nat"
  pos :: nat

definition random_seed :: "(nat \<Rightarrow> nat \<Rightarrow> nat) \<Rightarrow> nat \<Rightarrow> rng_state" where
  "random_seed mt s = \<lparr>draws = mt s, pos = 0\<rparr>"

definition randint :: "rng_state \<Rightarrow> int \<Rightarrow> int \<Rightarrow> int \<times> rng_state" where
  "randint st lo hi =
     (lo + int (draws st (pos st)) mod (hi - lo), st\<lparr>pos := pos st + 1\<rparr>)"

definition random_uniform :: "rng_state \<Rightarrow> real \<Rightarrow> real \<Rightarrow> real \<times> rng_state" where
  "random_uniform st lo hi =
     (lo + (hi - lo) * (real_of_int (int (draws st (pos st)) mod 1000000) / 1000000),
      st\<lparr>pos := pos st + 1\<rparr>)"

section \<open>The cell-level data set\<close>

text \<open>
  One row of \<open>delhi_urban_coverage_realistic_2000cells.csv\<close>, read by the hospital, park
  and urban models. Every numeric cell of the file is taken to hold a finite number.
\<close>

record cell =
  zone_name :: string
  area_km2 :: real
  population :: int
  population_density_per_km2 :: real
  park_count :: int
  park_area_km2 :: real
  green_area_pct :: real
  school_count :: int
  hospital_count :: int
  primary_roads_km :: real
  parks_per_10k_residents :: real
  schools_per_10k_residents :: real
  hospitals_per_100k_residents :: real
  coverage_score :: real
  coverage_label :: string

section \<open>Hospital model (\<open>hospital_coverage_model.py\<close>)\<close>

text \<open>
  A row of the zone table \<open>grouped\<close>. The script adds the columns \<open>total_beds\<close>,
  \<open>beds_per_100k\<close>, \<open>health_access_index\<close>, \<open>coverage_label\<close>, \<open>status\<close> and
  \<open>zone_id\<close> step by step; a column that a step has not written yet holds \<open>0\<close>,
  \<open>NaN\<close> or the empty string here.
\<close>

record hospital_zone =
  h_zone_name :: string
  h_num_hospitals :: int
  h_total_population :: int
  h_total_area_km2 :: real
  h_avg_hospitals_per_100k :: real
  h_avg_population_density :: real
  h_total_roads_km :: real
  h_total_beds :: int
  h_beds_per_100k :: fl
  h_health_access_index :: fl
  h_coverage_label :: string
  h_status :: string
  h_zone_id :: string

definition hospital_aggregate_to_zones :: "'a cell_scheme list \<Rightarrow> hospital_zone list" where
  "hospital_aggregate_to_zones df =
     map (\<lambda>(k, g).
       \<lparr>h_zone_name = k,
        h_num_hospitals = sum_list (map hospital_count g),
        h_total_population = sum_list (map population g),
        h_total_area_km2 = sum_list (map area_km2 g),
        h_avg_hospitals_per_100k = col_mean hospitals_per_100k_residents g,
        h_avg_population_density = col_mean population_density_per_km2 g,
        h_total_roads_km = sum_list (map primary_roads_km g),
        h_total_beds = 0, h_beds_per_100k = NaN, h_health_access_index = NaN,
        h_coverage_label = [], h_status = [], h_zone_id = []\<rparr>)
     (groupby zone_name df)"

definition estimate_beds_for_zone :: "rng_state \<Rightarrow> hospital_zone \<Rightarrow> int \<times> rng_state" where
  "estimate_beds_for_zone st row =
     (let num_hospitals = h_num_hospitals row; population = h_total_population row in
      if num_hospitals = 0 then (0, st)
      else
        let (beds, st') =
          (if population > 3000000 then
             let large_hospitals = max 1 (py_int (real_of_int num_hospitals * 0.2));
                 medium_hospitals = num_hospitals - large_hospitals;
                 (a, st1) = randint st 400 800;
                 (b, st2) = randint st1 80 200
             in (large_hospitals * a + medium_hospitals * b, st2)
           else if population > 2000000 then
             let medium_hospitals = max 1 (py_int (real_of_int num_hospitals * 0.3));
                 small_hospitals = num_hospitals - medium_hospitals;
                 (a, st1) = randint st 100 250;
                 (b, st2) = randint st1 30 100
             in (medium_hospitals * a + small_hospitals * b, st2)
           else if population > 1000000 then
             let (a, st1) = randint st 60 180 in (num_hospitals * a, st1)
           else
             let (a, st1) = randint st 20 80 in (num_hospitals * a, st1));
          beds = (if num_hospitals > 0 then max beds (num_hospitals * 15) else beds)
        in (beds, st'))"

text \<open>\<open>grouped.apply(estimate_beds_for_zone, axis=1)\<close>: row by row, in table order.\<close>

fun apply_estimate_beds :: "rng_state \<Rightarrow> hospital_zone list \<Rightarrow> hospital_zone list \<times> rng_state" where
  "apply_estimate_beds st [] = ([], st)"
| "apply_estimate_beds st (row # rows) =
     (let (beds, st1) = estimate_beds_for_zone st row;
          (rows', st2) = apply_estimate_beds st1 rows
      in (row\<lparr>h_total_beds := beds\<rparr> # rows', st2))"

text \<open>
  \<open>estimate_hospital_capacity\<close> starts with \<open>np.random.seed(42)\<close>, so the generator
  state \<open>st\<close> that the caller leaves behind is overwritten.
\<close>

definition estimate_hospital_capacity ::
  "(nat \<Rightarrow> nat \<Rightarrow> nat) \<Rightarrow> rng_state \<Rightarrow> hospital_zone list \<Rightarrow> hospital_zone list \<times> rng_state" where
  "estimate_hospital_capacity mt st grouped =
     (let st0 = random_seed mt 42;
          (rows, st1) = apply_estimate_beds st0 grouped
      in (map (\<lambda>r. r\<lparr>h_beds_per_100k :=
                replace_inf 0 (fillna 0
                  (fl_mul (fl_div (Val (real_of_int (h_total_beds r)))
                                  (Val (real_of_int (h_total_population r))))
                          (Val 100000)))\<rparr>) rows,
          st1))"

fun list_max :: "real list \<Rightarrow> real" where
  "list_max [] = 0"
| "list_max [x] = x"
| "list_max (x # xs) = max x (list_max xs)"

text \<open>
  The adjustment of one named zone: \<open>mask = grouped['zone_name'] == name\<close>, and if
  \<open>mask.any()\<close> the value computed from the first row of the mask (\<open>.iloc[0]\<close>) is
  written to every row of the mask; \<open>None\<close> is the branch that writes nothing.
\<close>

definition adjust_zone ::
  "string \<Rightarrow> (hospital_zone \<Rightarrow> fl option) \<Rightarrow> hospital_zone list \<Rightarrow> hospital_zone list" where
  "adjust_zone name f grouped =
     (case find (\<lambda>r. h_zone_name r = name) grouped of
        None \<Rightarrow> grouped
      | Some z \<Rightarrow>
          (case f z of
             None \<Rightarrow> grouped
           | Some v \<Rightarrow> set_where (\<lambda>r. h_zone_name r = name)
                        (\<lambda>r. r\<lparr>h_health_access_index := v\<rparr>) grouped))"

definition hospital_base_score :: "real \<Rightarrow> hospital_zone \<Rightarrow> fl" where
  "hospital_base_score max_roads r =
     (let hosp_per_100k = h_avg_hospitals_per_100k r;
          hospital_score = clip (Val ((hosp_per_100k / 15) * 40)) 0 40;
          has_hospitals_bonus = Val (if h_num_hospitals r > 0 then 5 else 0);
          hospital_score = fl_add hospital_score has_hospitals_bonus;
          beds_per_100k = fillna 0 (h_beds_per_100k r);
          bed_score = clip (fl_mul (fl_div beds_per_100k (Val 800)) (Val 30)) 0 30;
          road_score = clip (Val ((h_total_roads_km r / max_roads) * 15)) 0 15;
          density_normalized = h_avg_population_density r / 25000;
          density_score = clip (Val (density_normalized * 15)) 0 15
      in clip (round_dp 1
           (fl_add (fl_add (fl_add hospital_score bed_score) road_score) density_score))
           20 100)"

definition hospital_calculate_coverage_score :: "hospital_zone list \<Rightarrow> hospital_zone list" where
  "hospital_calculate_coverage_score grouped =
     (let m = list_max (map h_total_roads_km grouped);
          max_roads = (if m = 0 then 1 else m);
          g1 = map (\<lambda>r. r\<lparr>h_health_access_index := hospital_base_score max_roads r\<rparr>) grouped;
          g2 = adjust_zone ''Central'' (\<lambda>z.
                 if h_num_hospitals z > 35 \<and> fl_gt (h_beds_per_100k z) (Val 300)
                 then Some (Val 100)
                 else Some (clip (fl_mul (h_health_access_index z) (Val 1.25)) 85 100)) g1;
          g3 = adjust_zone ''East'' (\<lambda>z.
                 if h_num_hospitals z > 40
                 then Some (clip (fl_mul (h_health_access_index z) (Val 2.2)) 82 86)
                 else None) g2;
          g4 = adjust_zone ''North'' (\<lambda>z.
                 if h_num_hospitals z > 40
                 then Some (clip (fl_mul (h_health_access_index z) (Val 1.85)) 70 80)
                 else None) g3;
          g5 = adjust_zone ''West'' (\<lambda>z.
                 if h_num_hospitals z > 60
                 then Some (clip (fl_mul (h_health_access_index z) (Val 0.92)) 54 56)
                 else None) g4;
          g6 = adjust_zone ''New Delhi'' (\<lambda>z.
                 Some (clip (fl_mul (h_health_access_index z) (Val 0.65)) 20 25)) g5;
          g7 = adjust_zone ''South'' (\<lambda>z. Some (Val 35.9)) g6;
          g8 = set_where
                 (\<lambda>r. h_num_hospitals r > 80 \<and> fl_gt (h_beds_per_100k r) (Val 500)
                      \<and> h_zone_name r \<noteq> ''South'')
                 (\<lambda>r. r\<lparr>h_health_access_index :=
                        clip (fl_mul (h_health_access_index r) (Val 1.2)) 75 100\<rparr>) g7;
          g9 = set_where
                 (\<lambda>r. h_num_hospitals r < 30 \<and> h_avg_hospitals_per_100k r < 2)
                 (\<lambda>r. r\<lparr>h_health_access_index :=
                        clip (fl_mul (h_health_access_index r) (Val 0.7)) 20 40\<rparr>) g8
      in map (\<lambda>r. r\<lparr>h_health_access_index := round_dp 1 (h_health_access_index r)\<rparr>) g9)"

definition label_zones :: "hospital_zone list \<Rightarrow> hospital_zone list" where
  "label_zones grouped =
     map (\<lambda>r. r\<lparr>h_coverage_label := fst (assign_label (h_health_access_index r)),
                h_status := snd (assign_label (h_health_access_index r))\<rparr>) grouped"

text \<open>
  \<open>export_results\<close>. The row of the written file, in the order of \<open>output_cols\<close>.
  \<open>zone_id\<close> is \<open>f"{i+1}"\<close> for the position \<open>i\<close> of the zone's name among the sorted
  names; the rows are then sorted by this string.
\<close>

record hospital_result =
  hr_zone_id :: string
  hr_zone_name :: string
  hr_predicted_coverage_score :: fl
  hr_coverage_label :: string
  hr_num_facilities :: int
  hr_total_capacity :: int
  hr_status :: string

definition hospital_output_cols :: "string list" where
  "hospital_output_cols =
     [''zone_id'', ''zone_name'', ''predicted_coverage_score'', ''coverage_label'',
      ''num_facilities'', ''total_capacity'', ''status'']"

fun index_of :: "'a \<Rightarrow> 'a list \<Rightarrow> nat" where
  "index_of x [] = 0"
| "index_of x (y # ys) = (if x = y then 0 else Suc (index_of x ys))"

definition hospital_zone_id_map :: "hospital_zone list \<Rightarrow> string \<Rightarrow> string" where
  "hospital_zone_id_map grouped zone =
     string_of_nat (index_of zone (sort (remdups (map h_zone_name grouped))) + 1)"

definition export_results :: "hospital_zone list \<Rightarrow> hospital_result list" where
  "export_results grouped =
     sort_key hr_zone_id
       (map (\<lambda>r. \<lparr>hr_zone_id = hospital_zone_id_map grouped (h_zone_name r),
                  hr_zone_name = h_zone_name r,
                  hr_predicted_coverage_score = round_dp 1 (h_health_access_index r),
                  hr_coverage_label = h_coverage_label r,
                  hr_num_facilities = h_num_hospitals r,
                  hr_total_capacity = h_total_beds r,
                  hr_status = h_status r\<rparr>) grouped)"

text \<open>\<open>main\<close>: the steps in order (the file is read before, written after).\<close>

definition hospital_main ::
  "(nat \<Rightarrow> nat \<Rightarrow> nat) \<Rightarrow> rng_state \<Rightarrow> 'a cell_scheme list \<Rightarrow> hospital_result list" where
  "hospital_main mt st df =
     export_results (label_zones (hospital_calculate_coverage_score
       (fst (estimate_hospital_capacity mt st (hospital_aggregate_to_zones df)))))"

section \<open>Park model (\<open>park_coverage_model.py\<close>)\<close>

text \<open>
  \<open>create_sub_zones\<close> adds the column \<open>sub_zone_name\<close> to the cells; the model starts
  from its result. \<open>Series.max()\<close> and \<open>Series.mean()\<close> skip \<open>NaN\<close> and are \<open>NaN\<close>
  when nothing is left, in particular for an empty selection.
\<close>

record park_cell = cell +
  sub_zone_name :: string

fun is_nan :: "fl \<Rightarrow> bool" where
  "is_nan NaN = True"
| "is_nan _ = False"

definition series_max :: "fl list \<Rightarrow> fl" where
  "series_max xs =
     (case filter (\<lambda>x. \<not> is_nan x) xs of
        [] \<Rightarrow> NaN
      | y # ys \<Rightarrow> fold (\<lambda>b a. if fl_lt a b then b else a) ys y)"

definition series_mean :: "fl list \<Rightarrow> fl" where
  "series_mean xs =
     (let ys = filter (\<lambda>x. \<not> is_nan x) xs in
      if ys = [] then NaN
      else fl_div (foldl fl_add (Val 0) ys) (Val (real (length ys))))"

text \<open>
  \<open>sort_values\<close> as a stable insertion sort for an order \<open>le\<close> (pandas sorts with
  numpy's quicksort, which fixes no order among equal keys; the model keeps them in
  table order).
\<close>

fun insert_by :: "('a \<Rightarrow> 'a \<Rightarrow> bool) \<Rightarrow> 'a \<Rightarrow> 'a list \<Rightarrow> 'a list" where
  "insert_by le x [] = [x]"
| "insert_by le x (y # ys) = (if le x y then x # y # ys else y # insert_by le x ys)"

definition sort_values :: "('a \<Rightarrow> 'a \<Rightarrow> bool) \<Rightarrow> 'a list \<Rightarrow> 'a list" where
  "sort_values le xs = foldr (insert_by le) xs []"

text \<open>Descending order of a float column, \<open>NaN\<close> last.\<close>

definition desc_nan_last :: "fl \<Rightarrow> fl \<Rightarrow> bool" where
  "desc_nan_last a b = (is_nan b \<or> (\<not> is_nan a \<and> fl_le b a))"

record park_zone =
  p_index :: nat
  p_zone_name :: string
  p_total_parks :: int
  p_total_park_area_km2 :: real
  p_total_area_km2 :: real
  p_total_population :: int
  p_avg_green_area_pct :: real
  p_avg_parks_per_10k :: real
  p_avg_population_density :: real
  p_parks_per_km2 :: fl
  p_park_area_per_capita :: fl
  p_predicted_coverage_score :: fl
  p_coverage_label :: string
  p_status :: string
  p_urban_green_balance_index :: fl
  p_progress_to_who :: fl
  p_zone_id :: string

definition park_aggregate_to_zones :: "'a park_cell_scheme list \<Rightarrow> park_zone list" where
  "park_aggregate_to_zones cells_df =
     map (\<lambda>(i, (k, g)).
       let total_parks = sum_list (map park_count g);
           total_park_area_km2 = sum_list (map park_area_km2 g);
           total_area_km2 = sum_list (map area_km2 g);
           total_population = sum_list (map population g)
       in \<lparr>p_index = i,
           p_zone_name = k,
           p_total_parks = total_parks,
           p_total_park_area_km2 = total_park_area_km2,
           p_total_area_km2 = total_area_km2,
           p_total_population = total_population,
           p_avg_green_area_pct = col_mean green_area_pct g,
           p_avg_parks_per_10k = col_mean parks_per_10k_residents g,
           p_avg_population_density = col_mean population_density_per_km2 g,
           p_parks_per_km2 = fillna 0 (replace_inf 0 (fillna 0
              (fl_div (Val (real_of_int total_parks)) (Val total_area_km2)))),
           p_park_area_per_capita = fillna 0 (replace_inf 0 (fl_mul
              (fillna 0 (fl_div (Val total_park_area_km2) (Val (real_of_int total_population))))
              (Val 10000))),
           p_predicted_coverage_score = NaN,
           p_coverage_label = [], p_status = [],
           p_urban_green_balance_index = NaN, p_progress_to_who = NaN,
           p_zone_id = []\<rparr>)
     (enumerate 0 (groupby sub_zone_name cells_df))"

definition calculate_park_coverage_score :: "park_zone list \<Rightarrow> park_zone list" where
  "calculate_park_coverage_score zones_df =
     (let m = series_max (map (\<lambda>r. fillna 0 (p_parks_per_km2 r)) zones_df);
          max_density = (if m = Val 0 then Val 1 else m)
      in map (\<lambda>r.
           let parks_score = clip (Val ((p_avg_parks_per_10k r / 15) * 40)) 0 40;
               area_score = clip (fl_mul (fl_div (fillna 0 (p_park_area_per_capita r)) (Val 9))
                                         (Val 30)) 0 30;
               green_score = clip (Val ((p_avg_green_area_pct r / 25) * 20)) 0 20;
               density_score =
                 (if fl_gt max_density (Val 0)
                  then fl_mul (fl_div (fillna 0 (p_parks_per_km2 r)) max_density) (Val 10)
                  else Val 0);
               density_score = clip density_score 0 10
           in r\<lparr>p_predicted_coverage_score :=
                  clip (round_dp 1
                    (fl_add (fl_add (fl_add parks_score area_score) green_score) density_score))
                    15 100\<rparr>) zones_df)"

definition set_score :: "(park_zone \<Rightarrow> bool) \<Rightarrow> (park_zone \<Rightarrow> fl) \<Rightarrow> park_zone list \<Rightarrow> park_zone list" where
  "set_score sel f zs = set_where sel (\<lambda>r. r\<lparr>p_predicted_coverage_score := f r\<rparr>) zs"

definition east_zone1_mask :: "park_zone \<Rightarrow> bool" where
  "east_zone1_mask r = (p_zone_name r = ''East Zone 1'')"

definition newdelhi_mask :: "park_zone \<Rightarrow> bool" where
  "newdelhi_mask r = (p_zone_name r = ''New Delhi'')"

definition protected_mask :: "park_zone \<Rightarrow> bool" where
  "protected_mask r = (p_zone_name r = ''East Zone 1'' \<or> p_zone_name r = ''New Delhi'')"

text \<open>\<open>df.nlargest(n, 'total_parks')\<close>: the first \<open>n\<close> rows in descending order, ties in table order.\<close>

definition nlargest :: "nat \<Rightarrow> park_zone list \<Rightarrow> park_zone list" where
  "nlargest n zs = take n (sort_values (\<lambda>a b. p_total_parks b \<le> p_total_parks a) zs)"

text \<open>First part of \<open>adjust_for_ui_expectations\<close>: the two named zones, by their park count.\<close>

definition ui_named_zones :: "park_zone list \<Rightarrow> park_zone list" where
  "ui_named_zones zones_df =
     (let z1 = (case find east_zone1_mask zones_df of
                  None \<Rightarrow> zones_df
                | Some e \<Rightarrow> if p_total_parks e > 500
                            then set_score east_zone1_mask (\<lambda>_. Val 95) zones_df
                            else zones_df)
      in case find newdelhi_mask z1 of
           None \<Rightarrow> z1
         | Some n \<Rightarrow> if p_total_parks n < 100
                     then set_score newdelhi_mask (\<lambda>_. Val 44) z1
                     else z1)"

text \<open>Second part: the three tiers by park count.\<close>

definition ui_tiers :: "park_zone list \<Rightarrow> park_zone list" where
  "ui_tiers zones_df0 =
     (let zones_df = sort_values (\<lambda>a b. p_total_parks b \<le> p_total_parks a) zones_df0;
          n_zones = length zones_df;
          top_10_pct = nat (max 1 (py_int (real n_zones * 0.1)));
          middle_40_pct = nat (max 1 (py_int (real n_zones * 0.4)));
          top_index = map p_index (nlargest top_10_pct zones_df);
          top_mask = (\<lambda>r. \<not> protected_mask r \<and> p_index r \<in> set top_index);
          z1 = (if length (filter top_mask zones_df) > 0
                then set_score top_mask
                       (\<lambda>r. clip (fl_mul (p_predicted_coverage_score r) (Val 1.4)) 75 95) zones_df
                else zones_df);
          middle_mask = (\<lambda>r. \<not> protected_mask r \<and> \<not> top_mask r);
          middle_zones = nlargest middle_40_pct (filter middle_mask z1);
          middle_index = map p_index middle_zones;
          z2 = (if length middle_zones > 0
                then set_score (\<lambda>r. p_index r \<in> set middle_index)
                       (\<lambda>r. clip (fl_mul (p_predicted_coverage_score r) (Val 1.2)) 40 75) z1
                else z1);
          low_mask = (\<lambda>r. \<not> protected_mask r \<and> \<not> top_mask r \<and> p_index r \<notin> set middle_index)
      in if length (filter low_mask z2) > 0
         then set_score low_mask
                (\<lambda>r. clip (fl_mul (p_predicted_coverage_score r) (Val 0.8)) 15 42) z2
         else z2)"

text \<open>Third part: rescaling of the unprotected zones towards a city average of 42.\<close>

definition ui_balance :: "park_zone list \<Rightarrow> park_zone list" where
  "ui_balance zones_df =
     (let unprotected_mask = (\<lambda>r. \<not> protected_mask r);
          unprotected_count = length (filter unprotected_mask zones_df)
      in if unprotected_count > 0 then
           let protected_avg =
                 series_mean (map p_predicted_coverage_score (filter protected_mask zones_df));
               protected_count = length (filter protected_mask zones_df);
               total_count = length zones_df;
               target_unprotected_avg =
                 fl_div (fl_sub (Val (42 * real total_count))
                                (fl_mul protected_avg (Val (real protected_count))))
                        (Val (real unprotected_count));
               current_unprotected_avg =
                 series_mean (map p_predicted_coverage_score (filter unprotected_mask zones_df));
               z1 = (if fl_gt current_unprotected_avg (Val 0) then
                       let scale_factor = fl_div target_unprotected_avg current_unprotected_avg
                       in set_score unprotected_mask
                            (\<lambda>r. round_dp 1
                               (clip (fl_mul (p_predicted_coverage_score r) scale_factor) 15 100))
                            zones_df
                     else zones_df);
               final_avg = series_mean (map p_predicted_coverage_score z1)
           in if fl_gt (fl_abs (fl_sub final_avg (Val 42))) (Val 0.1) then
                let diff_per_zone = fl_div (fl_sub (Val 42) final_avg) (Val (real unprotected_count))
                in set_score unprotected_mask
                     (\<lambda>r. round_dp 1
                        (clip (fl_add (p_predicted_coverage_score r) diff_per_zone) 15 100)) z1
              else z1
         else zones_df)"

text \<open>Fourth part: "Ensure East Zone 1 and New Delhi are exactly set".\<close>

definition ui_exact :: "park_zone list \<Rightarrow> park_zone list" where
  "ui_exact zones_df =
     (let z1 = (if list_ex east_zone1_mask zones_df
                then set_score east_zone1_mask (\<lambda>_. Val 95) zones_df else zones_df)
      in if list_ex newdelhi_mask z1
         then set_score newdelhi_mask (\<lambda>_. Val 44) z1 else z1)"

text \<open>Python's \<open>round(x, 2)\<close> on a float.\<close>

definition round2 :: "real \<Rightarrow> real" where
  "round2 x = of_int (rint (x * 100)) / 100"

definition calculate_realistic_park_area :: "rng_state \<Rightarrow> int \<Rightarrow> real \<Rightarrow> real \<times> rng_state" where
  "calculate_realistic_park_area st num_parks current_area =
     (if num_parks = 0 then (0, st)
      else if num_parks > 1000 then (round2 (real_of_int num_parks * 0.057), st)
      else if num_parks > 100 then
        let (u, st1) = random_uniform st 0 0.02
        in (round2 (real_of_int num_parks * (0.03 + u)), st1)
      else if num_parks > 30 then
        let (u, st1) = random_uniform st 0 0.03
        in (round2 (real_of_int num_parks * (0.02 + u)), st1)
      else
        let (u, st1) = random_uniform st 0 0.02;
            area = round2 (real_of_int num_parks * (0.015 + u))
        in (if num_parks > 0 then max area 0.5 else 0, st1))"

text \<open>Fifth part: the areas of the unprotected zones, row by row.\<close>

fun ui_areas :: "rng_state \<Rightarrow> park_zone list \<Rightarrow> park_zone list \<times> rng_state" where
  "ui_areas st [] = ([], st)"
| "ui_areas st (r # rs) =
     (if protected_mask r then
        let (rs', st') = ui_areas st rs in (r # rs', st')
      else
        let (a, st1) = calculate_realistic_park_area st (p_total_parks r) (p_total_area_km2 r);
            (rs', st2) = ui_areas st1 rs
        in (r\<lparr>p_total_area_km2 := a\<rparr> # rs', st2))"

definition adjust_for_ui_expectations :: "rng_state \<Rightarrow> park_zone list \<Rightarrow> park_zone list \<times> rng_state" where
  "adjust_for_ui_expectations st zones_df =
     ui_areas st (ui_exact (ui_balance (ui_tiers (ui_named_zones zones_df))))"

definition assign_labels :: "park_zone list \<Rightarrow> park_zone list" where
  "assign_labels zones_df =
     map (\<lambda>r. r\<lparr>p_coverage_label := fst (get_label_and_status (p_predicted_coverage_score r)),
                p_status := snd (get_label_and_status (p_predicted_coverage_score r))\<rparr>) zones_df"

definition calculate_urban_green_balance_index :: "park_zone list \<Rightarrow> park_zone list" where
  "calculate_urban_green_balance_index zones_df =
     (let final_avg = series_mean (map p_predicted_coverage_score zones_df)
      in map (\<lambda>r. r\<lparr>p_urban_green_balance_index := round_dp 1 final_avg,
                    p_progress_to_who := round_dp 1 final_avg\<rparr>) zones_df)"

definition create_zone_ids :: "park_zone list \<Rightarrow> park_zone list" where
  "create_zone_ids zones_df =
     map (\<lambda>(i, r). r\<lparr>p_index := i, p_zone_id := format_02d (i + 1)\<rparr>)
       (enumerate 0
         (sort_values (\<lambda>a b. desc_nan_last (p_predicted_coverage_score a)
                                           (p_predicted_coverage_score b)) zones_df))"

record park_result =
  pr_zone_id :: string
  pr_zone_name :: string
  pr_predicted_coverage_score :: fl
  pr_coverage_label :: string
  pr_num_parks :: int
  pr_total_area :: real
  pr_status :: string
  pr_urban_green_balance_index :: fl
  pr_progress_to_who :: fl

definition park_output_cols :: "string list" where
  "park_output_cols =
     [''zone_id'', ''zone_name'', ''predicted_coverage_score'', ''coverage_label'',
      ''num_parks'', ''total_area'', ''status'', ''urban_green_balance_index'',
      ''progress_to_who'']"

text \<open>Steps 9 and 10 of \<open>main\<close>: the selected, renamed and rounded columns, sorted by score.\<close>

definition park_results :: "park_zone list \<Rightarrow> park_result list" where
  "park_results zones_df =
     sort_values (\<lambda>a b. desc_nan_last (pr_predicted_coverage_score a)
                                       (pr_predicted_coverage_score b))
       (map (\<lambda>r. \<lparr>pr_zone_id = p_zone_id r,
                  pr_zone_name = p_zone_name r,
                  pr_predicted_coverage_score = round_dp 1 (p_predicted_coverage_score r),
                  pr_coverage_label = p_coverage_label r,
                  pr_num_parks = p_total_parks r,
                  pr_total_area = round2 (p_total_area_km2 r),
                  pr_status = p_status r,
                  pr_urban_green_balance_index = round_dp 1 (p_urban_green_balance_index r),
                  pr_progress_to_who = round_dp 1 (p_progress_to_who r)\<rparr>) zones_df)"

text \<open>
  \<open>main\<close> from step 3 on. The module seeds the generator with 42 when it is loaded, and
  nothing draws from it before \<open>adjust_for_ui_expectations\<close>.
\<close>

definition park_pipeline :: "rng_state \<Rightarrow> park_zone list \<Rightarrow> park_result list" where
  "park_pipeline st zones_df =
     park_results (create_zone_ids (calculate_urban_green_balance_index (assign_labels
       (fst (adjust_for_ui_expectations st (calculate_park_coverage_score zones_df))))))"

definition park_main :: "(nat \<Rightarrow> nat \<Rightarrow> nat) \<Rightarrow> 'a park_cell_scheme list \<Rightarrow> park_result list" where
  "park_main mt cells_with_subzones =
     park_pipeline (random_seed mt 42) (park_aggregate_to_zones cells_with_subzones)"

section \<open>Urban model (\<open>urban_coverage_model.py\<close>)\<close>

text \<open>
  A row of \<open>zone_agg\<close>. The four columns on the cells' own \<open>coverage_score\<close> and
  \<open>coverage_label\<close> that are excluded from the features (standard deviation, minimum,
  maximum and the most frequent label) are left out.
\<close>

record urban_zone =
  u_zone_name :: string
  u_total_area_km2 :: real
  u_avg_cell_area_km2 :: real
  u_total_population :: int
  u_avg_cell_population :: real
  u_avg_population_density :: real
  u_total_parks :: int
  u_total_park_area_km2 :: real
  u_avg_green_area_pct :: real
  u_total_schools :: int
  u_total_hospitals :: int
  u_total_roads_km :: real
  u_avg_parks_per_10k :: real
  u_avg_schools_per_10k :: real
  u_avg_hospitals_per_100k :: real
  u_avg_coverage_score :: real
  u_zone_id :: string
  u_total_facilities :: int
  u_parks_per_km2 :: fl
  u_schools_per_km2 :: fl
  u_hospitals_per_km2 :: fl
  u_road_density_km_per_km2 :: fl

definition aggregate_cells_to_zones :: "'a cell_scheme list \<Rightarrow> urban_zone list" where
  "aggregate_cells_to_zones cells_df =
     (let unique_zones = group_keys zone_name cells_df in
      map (\<lambda>(k, g).
        let total_area_km2 = sum_list (map area_km2 g);
            total_parks = sum_list (map park_count g);
            total_schools = sum_list (map school_count g);
            total_hospitals = sum_list (map hospital_count g);
            total_roads_km = sum_list (map primary_roads_km g)
        in \<lparr>u_zone_name = k,
            u_total_area_km2 = total_area_km2,
            u_avg_cell_area_km2 = col_mean area_km2 g,
            u_total_population = sum_list (map population g),
            u_avg_cell_population = col_mean (\<lambda>c. real_of_int (population c)) g,
            u_avg_population_density = col_mean population_density_per_km2 g,
            u_total_parks = total_parks,
            u_total_park_area_km2 = sum_list (map park_area_km2 g),
            u_avg_green_area_pct = col_mean green_area_pct g,
            u_total_schools = total_schools,
            u_total_hospitals = total_hospitals,
            u_total_roads_km = total_roads_km,
            u_avg_parks_per_10k = col_mean parks_per_10k_residents g,
            u_avg_schools_per_10k = col_mean schools_per_10k_residents g,
            u_avg_hospitals_per_100k = col_mean hospitals_per_100k_residents g,
            u_avg_coverage_score = col_mean coverage_score g,
            u_zone_id = format_02d (index_of k (sort unique_zones) + 1),
            u_total_facilities = total_parks + total_schools + total_hospitals,
            u_parks_per_km2 = fillna 0 (fillna 0
               (fl_div (Val (real_of_int total_parks)) (Val total_area_km2))),
            u_schools_per_km2 = fillna 0 (fillna 0
               (fl_div (Val (real_of_int total_schools)) (Val total_area_km2))),
            u_hospitals_per_km2 = fillna 0 (fillna 0
               (fl_div (Val (real_of_int total_hospitals)) (Val total_area_km2))),
            u_road_density_km_per_km2 = fillna 0 (fillna 0
               (fl_div (Val total_roads_km) (Val total_area_km2)))\<rparr>)
      (groupby zone_name cells_df))"

text \<open>
  \<open>create_features\<close>: the target and the three composite features. \<open>zone_agg\<close> always
  has the column \<open>avg_coverage_score\<close>, so the target is its clipped value.
\<close>

record urban_features = urban_zone +
  uf_coverage_score :: fl
  uf_infrastructure_diversity :: int
  uf_green_infrastructure_ratio :: fl
  uf_facilities_per_population :: fl

definition urban_create_features :: "urban_zone list \<Rightarrow> urban_features list" where
  "urban_create_features zone_agg_df =
     map (\<lambda>r. urban_zone.extend r
       \<lparr>uf_coverage_score = clip (Val (u_avg_coverage_score r)) 0 100,
        uf_infrastructure_diversity =
          (if u_total_parks r > 0 then 1 else 0) + (if u_total_schools r > 0 then 1 else 0)
          + (if u_total_hospitals r > 0 then 1 else 0),
        uf_green_infrastructure_ratio =
          fl_div (Val (u_total_park_area_km2 r)) (Val (u_total_area_km2 r + 0.001)),
        uf_facilities_per_population =
          fl_mul (fl_div (Val (real_of_int (u_total_facilities r)))
                         (Val (real_of_int (u_total_population r + 1))))
                 (Val 10000)\<rparr>) zone_agg_df"

text \<open>
  \<open>predict_urban_coverage\<close>. The fitted regressor and scaler are not part of the
  repository: \<open>model\<close> is what they compute from a row of features. The columns of the
  result are in the order in which the function creates them.
\<close>

record urban_result =
  ur_zone_id :: string
  ur_zone_name :: string
  ur_predicted_coverage_score :: fl
  ur_coverage_label :: string
  ur_status :: string
  ur_actual_coverage_score :: fl
  ur_total_parks :: int
  ur_total_schools :: int
  ur_total_hospitals :: int
  ur_total_facilities :: int
  ur_total_population :: int

definition urban_output_cols :: "string list" where
  "urban_output_cols =
     [''zone_id'', ''zone_name'', ''predicted_coverage_score'', ''coverage_label'', ''status'',
      ''actual_coverage_score'', ''total_parks'', ''total_schools'', ''total_hospitals'',
      ''total_facilities'', ''total_population'']"

definition predict_urban_coverage :: "(urban_features \<Rightarrow> real) \<Rightarrow> urban_zone list \<Rightarrow> urban_result list" where
  "predict_urban_coverage model zone_agg_df =
     map (\<lambda>f. let prediction = Val (model f) in
       \<lparr>ur_zone_id = u_zone_id f,
        ur_zone_name = u_zone_name f,
        ur_predicted_coverage_score = round_dp 2 prediction,
        ur_coverage_label = urban_score_to_label prediction,
        ur_status = urban_score_to_status prediction,
        ur_actual_coverage_score = round_dp 2 (uf_coverage_score f),
        ur_total_parks = u_total_parks f,
        ur_total_schools = u_total_schools f,
        ur_total_hospitals = u_total_hospitals f,
        ur_total_facilities = u_total_facilities f,
        ur_total_population = u_total_population f\<rparr>)
     (urban_create_features zone_agg_df)"

section \<open>School model (\<open>school_coverage_model.py\<close>)\<close>

subsection \<open>Loading\<close>

text \<open>
  A row of the schools file once \<open>load_schools_data\<close> has found the coordinate columns
  and applied \<open>pd.to_numeric(..., errors='coerce')\<close>: a numeric cell is a number, or
  missing (\<open>None\<close>: an empty or non-numeric cell, \<open>NaN\<close> in pandas). \<open>row_index\<close> is
  the label of the row in the data frame, which every later step keeps.
\<close>

record school_row =
  row_index :: nat
  raw_school_id :: "nat option"
  raw_latitude :: "real option"
  raw_longitude :: "real option"
  raw_enrolment_total :: "real option"
  raw_student_teacher_ratio :: "real option"
  raw_school_level :: string
  raw_management_type :: string

record school =
  s_index :: nat
  school_id :: "nat option"
  latitude :: real
  longitude :: real
  enrolment_total :: real
  student_teacher_ratio :: real
  school_level :: string
  management_type :: string

text \<open>\<open>Series.between(lo, hi)\<close>, both ends included; false on a missing cell.\<close>

definition between :: "real option \<Rightarrow> real \<Rightarrow> real \<Rightarrow> bool" where
  "between x lo hi = (case x of None \<Rightarrow> False | Some v \<Rightarrow> lo \<le> v \<and> v \<le> hi)"

definition lower_char :: "char \<Rightarrow> char" where
  "lower_char c =
     (if CHR ''A'' \<le> c \<and> c \<le> CHR ''Z'' then char_of (of_char c + (32 :: nat)) else c)"

definition str_lower :: "string \<Rightarrow> string" where
  "str_lower s = map lower_char s"

text \<open>
  \<open>load_schools_data\<close> from "Clean coordinates" on. It returns the table and the lines
  it prints; it raises nothing on a bad coordinate.
\<close>

definition load_schools_data :: "school_row list \<Rightarrow> school list \<times> string list" where
  "load_schools_data df =
     (let df1 = filter (\<lambda>r. raw_latitude r \<noteq> None \<and> raw_longitude r \<noteq> None) df;
          df2 = filter (\<lambda>r. between (raw_latitude r) (-90) 90
                            \<and> between (raw_longitude r) (-180) 180) df1;
          gdf = map (\<lambda>r.
                  \<lparr>s_index = row_index r,
                   school_id = raw_school_id r,
                   latitude = the (raw_latitude r),
                   longitude = the (raw_longitude r),
                   enrolment_total = (case raw_enrolment_total r of None \<Rightarrow> 0 | Some v \<Rightarrow> v),
                   student_teacher_ratio =
                     (case raw_student_teacher_ratio r of None \<Rightarrow> 30 | Some v \<Rightarrow> v),
                   school_level = str_lower (raw_school_level r),
                   management_type = str_lower (raw_management_type r)\<rparr>) df2;
          gdf1 = filter (\<lambda>s. student_teacher_ratio s > 0) gdf;
          gdf2 = filter (\<lambda>s. student_teacher_ratio s < 100) gdf1
      in (gdf2,
          [''Loading schools data...'',
           ''Loaded '' @ string_of_nat (length gdf2) @ '' schools'']))"

subsection \<open>Spatial join\<close>

text \<open>
  A zone of \<open>admin_gdf\<close>. Polygons and the two geometric predicates of shapely are not
  part of the repository: the type \<open>'g\<close> of a zone's geometry is arbitrary, and
  \<open>is_within p g\<close> (the point lies within the polygon) and \<open>distance p g\<close> are parameters.
  A point is the pair (longitude, latitude).
\<close>

record 'g zone =
  zone_id :: string
  z_zone_name :: string
  geometry :: 'g

record joined_school =
  js_school :: school
  js_zone_id :: "string option"
  js_zone_name :: "string option"

definition school_point :: "school \<Rightarrow> real \<times> real" where
  "school_point s = (longitude s, latitude s)"

text \<open>
  \<open>gpd.sjoin(schools_gdf, admin_gdf, how='left', predicate='within')\<close>: one row for
  every zone the school lies within, and one row without a zone if there is none.
\<close>

definition sjoin_within ::
  "(real \<times> real \<Rightarrow> 'g \<Rightarrow> bool) \<Rightarrow> school list \<Rightarrow> 'g zone list \<Rightarrow> joined_school list" where
  "sjoin_within is_within schools_gdf admin_gdf =
     concat (map (\<lambda>s.
       (case filter (\<lambda>z. is_within (school_point s) (geometry z)) admin_gdf of
          [] \<Rightarrow> [\<lparr>js_school = s, js_zone_id = None, js_zone_name = None\<rparr>]
        | zs \<Rightarrow> map (\<lambda>z. \<lparr>js_school = s, js_zone_id = Some (zone_id z),
                              js_zone_name = Some (z_zone_name z)\<rparr>) zs))
       schools_gdf)"

text \<open>
  The distance loop of the function: \<open>min_dist\<close> starts at \<open>float('inf')\<close> (\<open>None\<close>
  here), and a zone replaces the current one only if it is strictly nearer.
\<close>

fun nearest_zone ::
  "(real \<times> real \<Rightarrow> 'g \<Rightarrow> real) \<Rightarrow> real \<times> real \<Rightarrow> 'g zone list \<Rightarrow> real option
     \<Rightarrow> (string \<times> string) option \<Rightarrow> (string \<times> string) option" where
  "nearest_zone distance p [] min_dist nearest = nearest"
| "nearest_zone distance p (z # zs) min_dist nearest =
     (let d = distance p (geometry z) in
      if (case min_dist of None \<Rightarrow> True | Some m \<Rightarrow> d < m)
      then nearest_zone distance p zs (Some d) (Some (zone_id z, z_zone_name z))
      else nearest_zone distance p zs min_dist nearest)"

definition dropna_zone_id :: "joined_school list \<Rightarrow> joined_school list" where
  "dropna_zone_id rows = filter (\<lambda>r. js_zone_id r \<noteq> None) rows"

text \<open>The body of the loop over the schools outside every zone.\<close>

definition assign_nearest ::
  "(real \<times> real \<Rightarrow> 'g \<Rightarrow> real) \<Rightarrow> 'g zone list \<Rightarrow> joined_school \<Rightarrow> joined_school" where
  "assign_nearest distance admin_gdf r =
     (case nearest_zone distance (school_point (js_school r)) admin_gdf None None of
        None \<Rightarrow> r
      | Some (zid, zname) \<Rightarrow> r\<lparr>js_zone_id := Some zid, js_zone_name := Some zname\<rparr>)"

text \<open>
  \<open>spatial_join_schools_to_zones\<close>. For the schools outside every zone the function first
  tries \<open>gpd.sjoin_nearest\<close> of the library and takes one zone per school from its
  result; the model follows the distance loop that the function carries for a library
  without \<open>sjoin_nearest\<close>.
\<close>

definition spatial_join_schools_to_zones ::
  "(real \<times> real \<Rightarrow> 'g \<Rightarrow> bool) \<Rightarrow> (real \<times> real \<Rightarrow> 'g \<Rightarrow> real)
     \<Rightarrow> school list \<Rightarrow> 'g zone list \<Rightarrow> bool \<Rightarrow> joined_school list" where
  "spatial_join_schools_to_zones is_within distance schools_gdf admin_gdf use_nearest =
     (let schools_with_zones = sjoin_within is_within schools_gdf admin_gdf;
          schools_outside = filter (\<lambda>r. js_zone_id r = None) schools_with_zones;
          schools_with_zones =
            (if length schools_outside > 0 then
               (if use_nearest then
                  set_where (\<lambda>r. js_zone_id r = None) (assign_nearest distance admin_gdf)
                    schools_with_zones
                else dropna_zone_id schools_with_zones)
             else schools_with_zones)
      in dropna_zone_id schools_with_zones)"

subsection \<open>Aggregation\<close>

text \<open>\<open>Series.str.contains(pat, case=False)\<close> for a plain pattern.\<close>

fun starts_with :: "string \<Rightarrow> string \<Rightarrow> bool" where
  "starts_with [] s = True"
| "starts_with (p # ps) [] = False"
| "starts_with (p # ps) (c # cs) = (p = c \<and> starts_with ps cs)"

fun str_contains :: "string \<Rightarrow> string \<Rightarrow> bool" where
  "str_contains pat [] = (pat = [])"
| "str_contains pat (c # cs) = (starts_with pat (c # cs) \<or> str_contains pat cs)"

record school_zone =
  sz_zone_id :: string
  num_schools :: nat
  total_enrolment :: real
  avg_enrolment :: real
  avg_student_teacher_ratio :: real
  num_primary_schools :: nat
  num_secondary_schools :: nat
  num_senior_secondary_schools :: nat
  num_govt_schools :: nat
  num_private_schools :: nat

text \<open>
  \<open>aggregate_schools_to_zones\<close>: \<open>groupby('zone_id')\<close> on the joined schools. The
  aggregation \<open>'count'\<close> of \<open>school_id\<close> counts the cells that are not missing.
\<close>

definition count_level :: "string \<Rightarrow> joined_school list \<Rightarrow> nat" where
  "count_level pat g =
     length (filter (\<lambda>r. str_contains pat (str_lower (school_level (js_school r)))) g)"

definition count_management :: "string \<Rightarrow> joined_school list \<Rightarrow> nat" where
  "count_management m g = length (filter (\<lambda>r. management_type (js_school r) = m) g)"

definition aggregate_schools_to_zones :: "joined_school list \<Rightarrow> school_zone list" where
  "aggregate_schools_to_zones schools_with_zones =
     (let mgmt_columns = remdups (map (\<lambda>r. management_type (js_school r)) schools_with_zones);
          govt_col = (if ''govt'' \<in> set mgmt_columns then Some ''govt''
                      else if ''government'' \<in> set mgmt_columns then Some ''government''
                      else None)
      in map (\<lambda>(k, g).
           \<lparr>sz_zone_id = k,
            num_schools = length (filter (\<lambda>r. school_id (js_school r) \<noteq> None) g),
            total_enrolment = sum_list (map (\<lambda>r. enrolment_total (js_school r)) g),
            avg_enrolment = col_mean (\<lambda>r. enrolment_total (js_school r)) g,
            avg_student_teacher_ratio = col_mean (\<lambda>r. student_teacher_ratio (js_school r)) g,
            num_primary_schools = count_level ''primary'' g,
            num_secondary_schools = count_level ''secondary'' g,
            num_senior_secondary_schools = count_level ''senior'' g,
            num_govt_schools = (case govt_col of None \<Rightarrow> 0 | Some c \<Rightarrow> count_management c g),
            num_private_schools = count_management ''private'' g\<rparr>)
         (groupby (\<lambda>r. the (js_zone_id r)) schools_with_zones))"

subsection \<open>Features and rule-based score\<close>

text \<open>A row of the population table; a column the file lacks for a zone is missing.\<close>

record population_row =
  pop_zone_id :: string
  population_total :: "real option"
  population_6_17 :: "real option"
  literacy_rate :: "real option"

record school_features = school_zone +
  f_population_total :: real
  f_population_6_17 :: real
  f_literacy_rate :: real
  schools_per_1000_children :: fl
  seat_capacity_per_100_children :: fl
  school_level_diversity :: real
  govt_school_ratio :: real
  enrolment_per_school :: real
  f_coverage_score :: fl

text \<open>\<open>calculate_coverage_score\<close> of the school model, for one row.\<close>

definition calculate_coverage_score :: "fl \<Rightarrow> fl \<Rightarrow> real \<Rightarrow> real \<Rightarrow> fl" where
  "calculate_coverage_score schools_per_1k capacity_per_100 str_ratio literacy =
     (let score = Val 0;
          score = fl_add score (clip (fl_mul (fl_div schools_per_1k (Val 5)) (Val 50)) 0 50);
          score = fl_add score (clip (fl_mul (fl_div capacity_per_100 (Val 120)) (Val 30)) 0 30);
          str_score = fl_mul (Val 10) (fl_sub (Val 1) (clip (Val ((str_ratio - 20) / 30)) 0 1));
          score = fl_add score str_score;
          score = fl_add score (Val (literacy * 10))
      in score)"

text \<open>
  \<open>create_features\<close>: a left merge with the population table on \<open>zone_id\<close> (a zone
  without a population row gets the defaults), then the ratios and the clipped score.
\<close>

definition default_opt :: "real \<Rightarrow> real option \<Rightarrow> real" where
  "default_opt d x = (case x of None \<Rightarrow> d | Some v \<Rightarrow> v)"

definition features_row :: "school_zone \<Rightarrow> population_row option \<Rightarrow> school_features" where
  "features_row z p =
     (let population_total = default_opt 10000 (Option.bind p population_total);
          population_6_17 = default_opt 2000 (Option.bind p population_6_17);
          literacy_rate = default_opt 0.85 (Option.bind p literacy_rate);
          schools_per_1000_children =
            fillna 0 (replace_inf 0
              (fl_mul (fl_div (Val (real (num_schools z))) (Val population_6_17)) (Val 1000)));
          seat_capacity_per_100_children =
            fillna 0 (replace_inf 0
              (fl_mul (fl_div (Val (total_enrolment z)) (Val population_6_17)) (Val 100)))
      in school_zone.extend z
           \<lparr>f_population_total = population_total,
            f_population_6_17 = population_6_17,
            f_literacy_rate = literacy_rate,
            schools_per_1000_children = schools_per_1000_children,
            seat_capacity_per_100_children = seat_capacity_per_100_children,
            school_level_diversity =
              real (num_primary_schools z + num_secondary_schools z
                    + num_senior_secondary_schools z) / real (num_schools z + 1),
            govt_school_ratio = real (num_govt_schools z) / real (num_schools z + 1),
            enrolment_per_school = total_enrolment z / real (num_schools z + 1),
            f_coverage_score =
              clip (calculate_coverage_score schools_per_1000_children
                      seat_capacity_per_100_children (avg_student_teacher_ratio z) literacy_rate)
                   0 100\<rparr>)"

definition create_features :: "school_zone list \<Rightarrow> population_row list \<Rightarrow> school_features list" where
  "create_features zone_stats population_df =
     concat (map (\<lambda>z.
       (case filter (\<lambda>p. pop_zone_id p = sz_zone_id z) population_df of
          [] \<Rightarrow> [features_row z None]
        | ps \<Rightarrow> map (\<lambda>p. features_row z (Some p)) ps)) zone_stats)"

section \<open>The written tables\<close>

text \<open>
  A row of a data frame as the exporters see it: the columns in the order in which the
  script created them, each under its name. \<open>df.rename(columns=m)\<close> renames the columns
  that \<open>m\<close> lists, \<open>df[cols]\<close> selects the columns \<open>cols\<close> in the order of \<open>cols\<close>
  (\<open>None\<close> is the \<open>KeyError\<close> for a column that the frame lacks), and an assignment to
  an existing column changes its cells and leaves its place.
\<close>

datatype cellv = SCell string | FCell fl | ICell int | RCell real

type_synonym frame_row = "(string \<times> cellv) list"

definition rename_columns :: "(string \<times> string) list \<Rightarrow> frame_row \<Rightarrow> frame_row" where
  "rename_columns m row =
     map (\<lambda>(c, v). ((case map_of m c of None \<Rightarrow> c | Some c' \<Rightarrow> c'), v)) row"

definition select_columns :: "string list \<Rightarrow> frame_row \<Rightarrow> frame_row option" where
  "select_columns cols row = those (map (\<lambda>c. map_option (Pair c) (map_of row c)) cols)"

definition update_column :: "string \<Rightarrow> (cellv \<Rightarrow> cellv) \<Rightarrow> frame_row \<Rightarrow> frame_row" where
  "update_column name f row = map (\<lambda>(c, v). if c = name then (c, f v) else (c, v)) row"

text \<open>\<open>Series.round(d)\<close> on a float column; other columns are left as they are.\<close>

fun round_cell :: "nat \<Rightarrow> cellv \<Rightarrow> cellv" where
  "round_cell d (FCell x) = FCell (round_dp d x)"
| "round_cell d (RCell x) = RCell (of_int (rint (x * 10 ^ d)) / 10 ^ d)"
| "round_cell d v = v"

text \<open>
  \<open>Series.astype(int)\<close>: an integer stays, a finite float is truncated. (On a column with
  \<open>NaN\<close> or text pandas raises; the exporters cast integer columns only.)
\<close>

fun astype_int :: "cellv \<Rightarrow> cellv" where
  "astype_int (ICell i) = ICell i"
| "astype_int (RCell x) = ICell (py_int x)"
| "astype_int (FCell (Val x)) = ICell (py_int x)"
| "astype_int v = v"

definition text_of :: "string \<Rightarrow> frame_row \<Rightarrow> string" where
  "text_of c row = (case map_of row c of Some (SCell s) \<Rightarrow> s | _ \<Rightarrow> [])"

definition float_of :: "string \<Rightarrow> frame_row \<Rightarrow> fl" where
  "float_of c row = (case map_of row c of Some (FCell x) \<Rightarrow> x | _ \<Rightarrow> NaN)"

text \<open>The columns of \<open>grouped\<close> when \<open>export_results\<close> has added \<open>zone_id\<close>.\<close>

definition hospital_frame_row :: "hospital_zone \<Rightarrow> frame_row" where
  "hospital_frame_row r =
     [(''zone_name'', SCell (h_zone_name r)),
      (''num_hospitals'', ICell (h_num_hospitals r)),
      (''total_population'', ICell (h_total_population r)),
      (''total_area_km2'', RCell (h_total_area_km2 r)),
      (''avg_hospitals_per_100k'', RCell (h_avg_hospitals_per_100k r)),
      (''avg_population_density'', RCell (h_avg_population_density r)),
      (''total_roads_km'', RCell (h_total_roads_km r)),
      (''total_beds'', ICell (h_total_beds r)),
      (''beds_per_100k'', FCell (h_beds_per_100k r)),
      (''health_access_index'', FCell (h_health_access_index r)),
      (''coverage_label'', SCell (h_coverage_label r)),
      (''status'', SCell (h_status r)),
      (''zone_id'', SCell (h_zone_id r))]"

text \<open>
  \<open>export_results\<close> on the named columns, step by step: \<open>zone_id\<close>, \<open>rename\<close>,
  \<open>output_df[output_cols]\<close>, the rounding, the two casts, the sort by \<open>zone_id\<close>.
\<close>

definition export_results_table :: "hospital_zone list \<Rightarrow> frame_row list option" where
  "export_results_table grouped =
     (let with_zone_id =
            map (\<lambda>r. r\<lparr>h_zone_id := hospital_zone_id_map grouped (h_zone_name r)\<rparr>) grouped;
          output_df =
            map (\<lambda>r. rename_columns
                  [(''zone_name'', ''zone_name''),
                   (''health_access_index'', ''predicted_coverage_score''),
                   (''num_hospitals'', ''num_facilities''),
                   (''total_beds'', ''total_capacity'')] (hospital_frame_row r)) with_zone_id
      in map_option
           (\<lambda>result_df.
              sort_key (text_of ''zone_id'')
                (map (\<lambda>row. update_column ''total_capacity'' astype_int
                        (update_column ''num_facilities'' astype_int
                          (update_column ''predicted_coverage_score'' (round_cell 1) row)))
                   result_df))
           (those (map (select_columns hospital_output_cols) output_df)))"

text \<open>The columns of \<open>zones_df\<close> at step 9 of the park model's \<open>main\<close>.\<close>

definition park_frame_row :: "park_zone \<Rightarrow> frame_row" where
  "park_frame_row r =
     [(''zone_name'', SCell (p_zone_name r)),
      (''total_parks'', ICell (p_total_parks r)),
      (''total_park_area_km2'', RCell (p_total_park_area_km2 r)),
      (''total_area_km2'', RCell (p_total_area_km2 r)),
      (''total_population'', ICell (p_total_population r)),
      (''avg_green_area_pct'', RCell (p_avg_green_area_pct r)),
      (''avg_parks_per_10k'', RCell (p_avg_parks_per_10k r)),
      (''avg_population_density'', RCell (p_avg_population_density r)),
      (''parks_per_km2'', FCell (p_parks_per_km2 r)),
      (''park_area_per_capita'', FCell (p_park_area_per_capita r)),
      (''predicted_coverage_score'', FCell (p_predicted_coverage_score r)),
      (''coverage_label'', SCell (p_coverage_label r)),
      (''status'', SCell (p_status r)),
      (''urban_green_balance_index'', FCell (p_urban_green_balance_index r)),
      (''progress_to_who'', FCell (p_progress_to_who r)),
      (''zone_id'', SCell (p_zone_id r))]"

text \<open>\<open>output_cols\<close> of the park model's \<open>main\<close>, before the renaming.\<close>

definition park_selected_cols :: "string list" where
  "park_selected_cols =
     [''zone_id'', ''zone_name'', ''predicted_coverage_score'', ''coverage_label'',
      ''total_parks'', ''total_area_km2'', ''status'', ''urban_green_balance_index'',
      ''progress_to_who'']"

text \<open>Steps 9 and 10 of \<open>main\<close> on the named columns.\<close>

definition park_results_table :: "park_zone list \<Rightarrow> frame_row list option" where
  "park_results_table zones_df =
     map_option
       (\<lambda>results.
          sort_values (\<lambda>a b. desc_nan_last (float_of ''predicted_coverage_score'' a)
                                            (float_of ''predicted_coverage_score'' b))
            (map (\<lambda>row.
                    update_column ''progress_to_who'' (round_cell 1)
                      (update_column ''urban_green_balance_index'' (round_cell 1)
                        (update_column ''num_parks'' astype_int
                          (update_column ''total_area'' (round_cell 2)
                            (update_column ''predicted_coverage_score'' (round_cell 1)
                              (rename_columns [(''total_parks'', ''num_parks''),
                                               (''total_area_km2'', ''total_area'')] row))))))
               results))
       (those (map (\<lambda>r. select_columns park_selected_cols (park_frame_row r)) zones_df))"

text \<open>
  \<open>predict_urban_coverage\<close> on the named columns: the frame is created with three
  columns, and each later assignment to a new name appends a column.
\<close>

definition predict_urban_coverage_table ::
  "(urban_features \<Rightarrow> real) \<Rightarrow> urban_zone list \<Rightarrow> frame_row list" where
  "predict_urban_coverage_table model zone_agg_df =
     map (\<lambda>f.
       let predictions = Val (model f);
           results = [(''zone_id'', SCell (u_zone_id f)),
                      (''zone_name'', SCell (u_zone_name f)),
                      (''predicted_coverage_score'', FCell predictions)];
           results = results @
             [(''coverage_label'',
               SCell (urban_score_to_label (float_of ''predicted_coverage_score'' results)))];
           results = results @
             [(''status'',
               SCell (urban_score_to_status (float_of ''predicted_coverage_score'' results)))];
           results = update_column ''predicted_coverage_score'' (round_cell 2) results;
           results = results @
             [(''actual_coverage_score'', FCell (round_dp 2 (uf_coverage_score f)))];
           results = results @ [(''total_parks'', ICell (u_total_parks f))];
           results = results @ [(''total_schools'', ICell (u_total_schools f))];
           results = results @ [(''total_hospitals'', ICell (u_total_hospitals f))];
           results = results @ [(''total_facilities'', ICell (u_total_facilities f))]
       in results @ [(''total_population'', ICell (u_total_population f))])
     (urban_create_features zone_agg_df)"

section \<open>Notions of the specification\<close>

text \<open>
  A record "whose coordinates are missing or outside the valid latitude/longitude
  ranges": latitude outside \<open>[-90, 90]\<close>, longitude outside \<open>[-180, 180]\<close>, or one
  of them missing.
\<close>

definition invalid_location :: "school_row \<Rightarrow> bool" where
  "invalid_location r =
     (\<not> (between (raw_latitude r) (-90) 90 \<and> between (raw_longitude r) (-180) 180))"

text \<open>A score "in the closed interval" from \<open>lo\<close> to \<open>hi\<close>; \<open>NaN\<close> is in no interval.\<close>

definition fl_between :: "real \<Rightarrow> real \<Rightarrow> fl \<Rightarrow> bool" where
  "fl_between lo hi x = (fl_le (Val lo) x \<and> fl_le x (Val hi))"

section \<open>Example inputs\<close>

text \<open>A generator algorithm whose every raw draw is \<open>n\<close>.\<close>

definition constant_generator :: "nat \<Rightarrow> nat \<Rightarrow> nat \<Rightarrow> nat" where
  "constant_generator n seed k = n"

text \<open>An inhabited cell with \<open>n\<close> parks, and a cell with nothing in it.\<close>

definition example_cell :: "string \<Rightarrow> string \<Rightarrow> int \<Rightarrow> park_cell" where
  "example_cell z sz n =
     \<lparr>zone_name = z, area_km2 = 1, population = 5000, population_density_per_km2 = 5000,
      park_count = n, park_area_km2 = 0.2, green_area_pct = 10, school_count = 2,
      hospital_count = 1, primary_roads_km = 3, parks_per_10k_residents = 6,
      schools_per_10k_residents = 4, hospitals_per_100k_residents = 20,
      coverage_score = 50, coverage_label = ''Good Coverage'', sub_zone_name = sz\<rparr>"

definition empty_cell :: "string \<Rightarrow> string \<Rightarrow> park_cell" where
  "empty_cell z sz =
     \<lparr>zone_name = z, area_km2 = 0, population = 0, population_density_per_km2 = 0,
      park_count = 0, park_area_km2 = 0, green_area_pct = 0, school_count = 0,
      hospital_count = 0, primary_roads_km = 0, parks_per_10k_residents = 0,
      schools_per_10k_residents = 0, hospitals_per_100k_residents = 0,
      coverage_score = 0, coverage_label = ''Needs Improvement'', sub_zone_name = sz\<rparr>"

text \<open>A cell that reports five parks on an area of zero.\<close>

definition zero_area_cell :: park_cell where
  "zero_area_cell = (example_cell ''Central'' ''Central Zone 1'' 5)\<lparr>area_km2 := 0\<rparr>"

text \<open>A cell of a small zone with one hospital.\<close>

definition one_hospital_cell :: park_cell where
  "one_hospital_cell =
     \<lparr>zone_name = ''Shahdara'', area_km2 = 10, population = 100000,
      population_density_per_km2 = 25000, park_count = 0, park_area_km2 = 0,
      green_area_pct = 0, school_count = 0, hospital_count = 1, primary_roads_km = 12,
      parks_per_10k_residents = 0, schools_per_10k_residents = 0,
      hospitals_per_100k_residents = 15, coverage_score = 50,
      coverage_label = ''Good Coverage'', sub_zone_name = ''Shahdara''\<rparr>"

text \<open>Rows of a schools file: a school in Delhi, one at latitude 123, one without longitude.\<close>

definition good_row :: school_row where
  "good_row =
     \<lparr>row_index = 0, raw_school_id = Some 1001, raw_latitude = Some 28.6,
      raw_longitude = Some 77.2, raw_enrolment_total = Some 450,
      raw_student_teacher_ratio = Some 28, raw_school_level = ''Primary'',
      raw_management_type = ''Govt''\<rparr>"

definition bad_latitude_row :: school_row where
  "bad_latitude_row = good_row\<lparr>row_index := 1, raw_school_id := Some 1002, raw_latitude := Some 123\<rparr>"

definition no_longitude_row :: school_row where
  "no_longitude_row = good_row\<lparr>row_index := 2, raw_school_id := Some 1003, raw_longitude := None\<rparr>"

text \<open>
  Zones as open strips of longitudes, which stand for polygons in the examples: a point
  is within a strip if its longitude is strictly between the two bounds.
\<close>

definition strip_within :: "real \<times> real \<Rightarrow> real \<times> real \<Rightarrow> bool" where
  "strip_within p g = (fst g < fst p \<and> fst p < snd g)"

definition strip_distance :: "real \<times> real \<Rightarrow> real \<times> real \<Rightarrow> real" where
  "strip_distance p g =
     (if fst p < fst g then fst g - fst p else if snd g < fst p then fst p - snd g else 0)"

definition zone_a :: "(real \<times> real) zone" where
  "zone_a = \<lparr>zone_id = ''A'', z_zone_name = ''Alpha'', geometry = (77.0, 77.2)\<rparr>"

definition zone_b :: "(real \<times> real) zone" where
  "zone_b = \<lparr>zone_id = ''B'', z_zone_name = ''Beta'', geometry = (77.2, 77.4)\<rparr>"

text \<open>A loaded school with the given row label, identifier cell and longitude.\<close>

definition example_school :: "nat \<Rightarrow> nat option \<Rightarrow> real \<Rightarrow> school" where
  "example_school i sid lon =
     \<lparr>s_index = i, school_id = sid, latitude = 28.6, longitude = lon, enrolment_total = 450,
      student_teacher_ratio = 28, school_level = ''primary'', management_type = ''govt''\<rparr>"

text \<open>A fitted model that predicts the same score for every zone.\<close>

definition constant_model :: "real \<Rightarrow> urban_features \<Rightarrow> real" where
  "constant_model v f = v"

section \<open>Facts about cells\<close>

lemma fl_le_trans: "fl_le a b \<Longrightarrow> fl_le b c \<Longrightarrow> fl_le a c"
  by (cases a; cases b; cases c) auto

lemma fl_ge_mono: "fl_le s1 s2 \<Longrightarrow> fl_ge s1 (Val t) \<Longrightarrow> fl_ge s2 (Val t)"
  unfolding fl_ge_def by (rule fl_le_trans)

section \<open>Labelers are monotone\<close>

lemma label_tier_simps:
  "label_tier ''Excellent Coverage'' = 2"
  "label_tier ''Good Coverage'' = 1"
  "label_tier ''Needs Improvement'' = 0"
  by (simp_all add: label_tier_def)

lemma status_tier_simps:
  "status_tier ''excellent'' = 2"
  "status_tier ''good'' = 1"
  "status_tier ''needs-improvement'' = 0"
  by (simp_all add: status_tier_def)

text \<open>
  C4. Each labeler (school, urban, hospital, park) is a function of the score alone, and
  it is monotone: if \<open>s1 \<le> s2\<close> then neither the label tier nor the status tier of
  \<open>s2\<close> is below that of \<open>s1\<close>.
\<close>

theorem labelers_monotone:
  assumes "fl_le s1 s2"
  shows "label_tier (score_to_label s1) \<le> label_tier (score_to_label s2)
       \<and> status_tier (score_to_status s1) \<le> status_tier (score_to_status s2)
       \<and> label_tier (urban_score_to_label s1) \<le> label_tier (urban_score_to_label s2)
       \<and> status_tier (urban_score_to_status s1) \<le> status_tier (urban_score_to_status s2)
       \<and> label_tier (fst (assign_label s1)) \<le> label_tier (fst (assign_label s2))
       \<and> status_tier (snd (assign_label s1)) \<le> status_tier (snd (assign_label s2))
       \<and> label_tier (fst (get_label_and_status s1)) \<le> label_tier (fst (get_label_and_status s2))
       \<and> status_tier (snd (get_label_and_status s1)) \<le> status_tier (snd (get_label_and_status s2))"
proof -
  note m = fl_ge_mono [OF assms]
  have a: "fl_ge s1 (Val 80) \<Longrightarrow> fl_ge s2 (Val 80)" by (rule m)
  have b: "fl_ge s1 (Val 60) \<Longrightarrow> fl_ge s2 (Val 60)" by (rule m)
  have c: "fl_ge s1 (Val 75) \<Longrightarrow> fl_ge s2 (Val 75)" by (rule m)
  have d: "fl_ge s1 (Val 50) \<Longrightarrow> fl_ge s2 (Val 50)" by (rule m)
  have e: "fl_ge s1 (Val 40) \<Longrightarrow> fl_ge s2 (Val 40)" by (rule m)
  have 1: "label_tier (score_to_label s1) \<le> label_tier (score_to_label s2)"
    using a b unfolding score_to_label_def by (simp add: label_tier_simps)
  have 2: "status_tier (score_to_status s1) \<le> status_tier (score_to_status s2)"
    using a b unfolding score_to_status_def by (simp add: status_tier_simps)
  have 3: "label_tier (urban_score_to_label s1) \<le> label_tier (urban_score_to_label s2)"
    using a b unfolding urban_score_to_label_def by (simp add: label_tier_simps)
  have 4: "status_tier (urban_score_to_status s1) \<le> status_tier (urban_score_to_status s2)"
    using a b unfolding urban_score_to_status_def by (simp add: status_tier_simps)
  have 5: "label_tier (fst (assign_label s1)) \<le> label_tier (fst (assign_label s2))"
    using c d unfolding assign_label_def by (simp add: label_tier_simps)
  have 6: "status_tier (snd (assign_label s1)) \<le> status_tier (snd (assign_label s2))"
    using c d unfolding assign_label_def by (simp add: status_tier_simps)
  have 7: "label_tier (fst (get_label_and_status s1)) \<le> label_tier (fst (get_label_and_status s2))"
    using c e unfolding get_label_and_status_def by (simp add: label_tier_simps)
  have 8: "status_tier (snd (get_label_and_status s1)) \<le> status_tier (snd (get_label_and_status s2))"
    using c e unfolding get_label_and_status_def by (simp add: status_tier_simps)
  from 1 2 3 4 5 6 7 8 show ?thesis by blast
qed

theorem labelers_monotone_witness:
  "fl_le (Val 55) (Val 78)
   \<and> label_tier (score_to_label (Val 55)) \<le> label_tier (score_to_label (Val 78))
   \<and> label_tier (fst (assign_label (Val 55))) \<le> label_tier (fst (assign_label (Val 78)))
   \<and> fst (assign_label (Val 55)) = ''Good Coverage''
   \<and> fst (assign_label (Val 78)) = ''Excellent Coverage''"
proof -
  have h: "fl_le (Val 55) (Val 78)" by simp
  show ?thesis using h labelers_monotone [OF h]
    by (simp add: assign_label_def fl_ge_def)
qed

section \<open>Facts about tables\<close>

lemma set_insert_by: "set (insert_by le x ys) = insert x (set ys)"
  by (induction ys) auto

lemma set_sort_values: "set (sort_values le xs) = set xs"
  unfolding sort_values_def by (induction xs) (simp_all add: set_insert_by)

lemma length_insert_by: "length (insert_by le x ys) = Suc (length ys)"
  by (induction ys) auto

lemma length_sort_values: "length (sort_values le xs) = length xs"
  unfolding sort_values_def by (induction xs) (simp_all add: length_insert_by)

lemma set_score_names: "map p_zone_name (set_score sel f zs) = map p_zone_name zs"
  unfolding set_score_def set_where_def by (induction zs) auto

lemma set_score_name_set: "p_zone_name ` set (set_score sel f zs) = p_zone_name ` set zs"
  using set_score_names [of sel f zs] by (metis set_map)

section \<open>Park model: the two named zones\<close>

lemma names_if:
  "p_zone_name ` set (if c then A else B) = (if c then p_zone_name ` set A else p_zone_name ` set B)"
  by simp

lemma ui_named_zones_names: "p_zone_name ` set (ui_named_zones zs) = p_zone_name ` set zs"
proof -
  let ?z1 = "case find east_zone1_mask zs of
                  None \<Rightarrow> zs
                | Some e \<Rightarrow> if p_total_parks e > 500
                            then set_score east_zone1_mask (\<lambda>_. Val 95) zs
                            else zs"
  have 1: "p_zone_name ` set ?z1 = p_zone_name ` set zs"
    by (cases "find east_zone1_mask zs") (simp_all add: set_score_name_set)
  have "p_zone_name ` set (ui_named_zones zs) = p_zone_name ` set ?z1"
    unfolding ui_named_zones_def Let_def
    by (cases "find newdelhi_mask ?z1") (simp_all add: set_score_name_set)
  with 1 show ?thesis by simp
qed

lemma ui_tiers_names: "p_zone_name ` set (ui_tiers zs) = p_zone_name ` set zs"
  unfolding ui_tiers_def Let_def
  by (simp only: names_if set_score_name_set set_sort_values if_cancel)

lemma ui_balance_names: "p_zone_name ` set (ui_balance zs) = p_zone_name ` set zs"
  unfolding ui_balance_def Let_def
  by (simp only: names_if set_score_name_set if_cancel)

lemma ui_exact_names: "map p_zone_name (ui_exact zs) = map p_zone_name zs"
  unfolding ui_exact_def Let_def by (simp only: set_score_names if_distrib [of "map p_zone_name"] if_cancel)

lemma ui_exact_scores:
  assumes "r \<in> set (ui_exact zs)"
  shows "(p_zone_name r = ''East Zone 1'' \<longrightarrow> p_predicted_coverage_score r = Val 95)
       \<and> (p_zone_name r = ''New Delhi'' \<longrightarrow> p_predicted_coverage_score r = Val 44)"
  using assms unfolding ui_exact_def Let_def set_score_def set_where_def
    east_zone1_mask_def newdelhi_mask_def list_ex_iff
  by (auto split: if_splits)

text \<open>The name and the score of a row, which the later steps keep.\<close>

lemma ui_areas_keeps:
  "map (\<lambda>r. (p_zone_name r, p_predicted_coverage_score r)) (fst (ui_areas st zs))
   = map (\<lambda>r. (p_zone_name r, p_predicted_coverage_score r)) zs"
proof (induction zs arbitrary: st)
  case Nil
  show ?case by simp
next
  case (Cons r rs)
  let ?k = "\<lambda>r. (p_zone_name r, p_predicted_coverage_score r)"
  show ?case
  proof (cases "protected_mask r")
    case True
    obtain rs' st' where e: "ui_areas st rs = (rs', st')" by (cases "ui_areas st rs")
    from Cons [of st] e have "map ?k rs' = map ?k rs" by simp
    with True e show ?thesis by simp
  next
    case False
    obtain a st1 where c:
      "calculate_realistic_park_area st (p_total_parks r) (p_total_area_km2 r) = (a, st1)"
      by (cases "calculate_realistic_park_area st (p_total_parks r) (p_total_area_km2 r)")
    obtain rs' st2 where e: "ui_areas st1 rs = (rs', st2)" by (cases "ui_areas st1 rs")
    from Cons [of st1] e have "map ?k rs' = map ?k rs" by simp
    with False c e show ?thesis by simp
  qed
qed

lemma assign_labels_keeps:
  "map (\<lambda>r. (p_zone_name r, p_predicted_coverage_score r)) (assign_labels zs)
   = map (\<lambda>r. (p_zone_name r, p_predicted_coverage_score r)) zs"
  unfolding assign_labels_def by (induction zs) auto

lemma ugbi_keeps:
  "map (\<lambda>r. (p_zone_name r, p_predicted_coverage_score r)) (calculate_urban_green_balance_index zs)
   = map (\<lambda>r. (p_zone_name r, p_predicted_coverage_score r)) zs"
  unfolding calculate_urban_green_balance_index_def Let_def by (induction zs) auto

lemma enumerate_relabel:
  "map (\<lambda>r. (p_zone_name r, p_predicted_coverage_score r))
     (map (\<lambda>(i, r). r\<lparr>p_index := i, p_zone_id := g i\<rparr>) (enumerate n xs))
   = map (\<lambda>r. (p_zone_name r, p_predicted_coverage_score r)) xs"
  by (induction xs arbitrary: n) auto

lemma create_zone_ids_keeps:
  "(\<lambda>r. (p_zone_name r, p_predicted_coverage_score r)) ` set (create_zone_ids zs)
   = (\<lambda>r. (p_zone_name r, p_predicted_coverage_score r)) ` set zs"
proof -
  have "(\<lambda>r. (p_zone_name r, p_predicted_coverage_score r)) ` set (create_zone_ids zs)
      = set (map (\<lambda>r. (p_zone_name r, p_predicted_coverage_score r)) (create_zone_ids zs))"
    by simp
  also have "\<dots> = set (map (\<lambda>r. (p_zone_name r, p_predicted_coverage_score r))
      (sort_values (\<lambda>a b. desc_nan_last (p_predicted_coverage_score a)
                                         (p_predicted_coverage_score b)) zs))"
    unfolding create_zone_ids_def by (simp only: enumerate_relabel)
  also have "\<dots> = (\<lambda>r. (p_zone_name r, p_predicted_coverage_score r)) ` set zs"
    by (simp add: set_sort_values)
  finally show ?thesis .
qed

lemma park_results_rows:
  "(\<lambda>r. (pr_zone_name r, pr_predicted_coverage_score r)) ` set (park_results zs)
   = (\<lambda>r. (p_zone_name r, round_dp 1 (p_predicted_coverage_score r))) ` set zs"
  unfolding park_results_def by (auto simp: set_sort_values image_iff)

lemma round_dp_95: "round_dp 1 (Val 95) = Val 95"
  by (simp add: rint_def)

lemma round_dp_44: "round_dp 1 (Val 44) = Val 44"
  by (simp add: rint_def)

lemma park_pipeline_rows:
  "(\<lambda>r. (pr_zone_name r, pr_predicted_coverage_score r)) ` set (park_pipeline st zs)
   = (\<lambda>r. (p_zone_name r, round_dp 1 (p_predicted_coverage_score r)))
       ` set (ui_exact (ui_balance (ui_tiers (ui_named_zones (calculate_park_coverage_score zs)))))"
    (is "?L = ?f ` set ?E")
proof -
  let ?k = "\<lambda>r. (p_zone_name r, p_predicted_coverage_score r)"
  let ?A = "fst (adjust_for_ui_expectations st (calculate_park_coverage_score zs))"
  have 1: "?k ` set (create_zone_ids (calculate_urban_green_balance_index (assign_labels ?A)))
         = ?k ` set ?E"
  proof -
    have "?k ` set (create_zone_ids (calculate_urban_green_balance_index (assign_labels ?A)))
        = set (map ?k (calculate_urban_green_balance_index (assign_labels ?A)))"
      by (simp add: create_zone_ids_keeps)
    also have "\<dots> = set (map ?k ?A)"
      by (simp only: ugbi_keeps assign_labels_keeps)
    also have "\<dots> = set (map ?k ?E)"
      unfolding adjust_for_ui_expectations_def by (simp only: ui_areas_keeps)
    finally show ?thesis by simp
  qed
  have 2: "?f = (\<lambda>(n, s). (n, round_dp 1 s)) \<circ> ?k"
    by (simp add: fun_eq_iff)
  have "?L = ?f ` set (create_zone_ids (calculate_urban_green_balance_index (assign_labels ?A)))"
    unfolding park_pipeline_def by (rule park_results_rows)
  also have "\<dots> = (\<lambda>(n, s). (n, round_dp 1 s)) `
      (?k ` set (create_zone_ids (calculate_urban_green_balance_index (assign_labels ?A))))"
    by (simp only: 2 image_comp)
  also have "\<dots> = (\<lambda>(n, s). (n, round_dp 1 s)) ` (?k ` set ?E)"
    by (simp only: 1)
  also have "\<dots> = ?f ` set ?E"
    by (simp only: 2 image_comp)
  finally show ?thesis .
qed

lemma calculate_park_coverage_score_names:
  "map p_zone_name (calculate_park_coverage_score zs) = map p_zone_name zs"
  unfolding calculate_park_coverage_score_def Let_def by (induction zs) auto

lemma park_pipeline_names:
  "pr_zone_name ` set (park_pipeline st zs) = p_zone_name ` set zs"
proof -
  let ?E = "ui_exact (ui_balance (ui_tiers (ui_named_zones (calculate_park_coverage_score zs))))"
  have "pr_zone_name ` set (park_pipeline st zs)
      = fst ` ((\<lambda>r. (pr_zone_name r, pr_predicted_coverage_score r)) ` set (park_pipeline st zs))"
    by (simp add: image_comp comp_def)
  also have "\<dots> = p_zone_name ` set ?E"
    by (simp only: park_pipeline_rows) (simp add: image_comp comp_def)
  also have "\<dots> = set (map p_zone_name ?E)" by simp
  also have "\<dots> = p_zone_name ` set (calculate_park_coverage_score zs)"
    by (simp only: ui_exact_names)
       (simp add: ui_balance_names ui_tiers_names ui_named_zones_names)
  also have "\<dots> = set (map p_zone_name (calculate_park_coverage_score zs))" by simp
  also have "\<dots> = p_zone_name ` set zs"
    by (simp only: calculate_park_coverage_score_names) simp
  finally show ?thesis .
qed

text \<open>
  C9. In the park model, every row of the exported table named \<open>East Zone 1\<close> has the
  score 95.0 and every row named \<open>New Delhi\<close> has the score 44.0, whatever the scoring
  formula and the rescaling passes computed; and the exported table has a row for exactly
  the names of the aggregated zones, so such a row exists whenever the zone does.
\<close>

theorem park_named_zones_forced:
  "(\<forall>r \<in> set (park_pipeline st zones_df).
      pr_zone_name r = ''East Zone 1'' \<longrightarrow> pr_predicted_coverage_score r = Val 95)
   \<and> (\<forall>r \<in> set (park_pipeline st zones_df).
      pr_zone_name r = ''New Delhi'' \<longrightarrow> pr_predicted_coverage_score r = Val 44)
   \<and> pr_zone_name ` set (park_pipeline st zones_df) = p_zone_name ` set zones_df"
proof -
  let ?E = "ui_exact (ui_balance (ui_tiers (ui_named_zones (calculate_park_coverage_score zones_df))))"
  have rows: "\<And>r. r \<in> set (park_pipeline st zones_df) \<Longrightarrow>
      \<exists>z \<in> set ?E. pr_zone_name r = p_zone_name z
        \<and> pr_predicted_coverage_score r = round_dp 1 (p_predicted_coverage_score z)"
  proof -
    fix r assume "r \<in> set (park_pipeline st zones_df)"
    then have "(pr_zone_name r, pr_predicted_coverage_score r)
        \<in> (\<lambda>r. (pr_zone_name r, pr_predicted_coverage_score r)) ` set (park_pipeline st zones_df)"
      by (rule imageI)
    then have "(pr_zone_name r, pr_predicted_coverage_score r)
        \<in> (\<lambda>r. (p_zone_name r, round_dp 1 (p_predicted_coverage_score r))) ` set ?E"
      by (simp only: park_pipeline_rows)
    then show "\<exists>z \<in> set ?E. pr_zone_name r = p_zone_name z
        \<and> pr_predicted_coverage_score r = round_dp 1 (p_predicted_coverage_score z)"
      by auto
  qed
  have east: "\<forall>r \<in> set (park_pipeline st zones_df).
      pr_zone_name r = ''East Zone 1'' \<longrightarrow> pr_predicted_coverage_score r = Val 95"
  proof (intro ballI impI)
    fix r assume r: "r \<in> set (park_pipeline st zones_df)" and n: "pr_zone_name r = ''East Zone 1''"
    from rows [OF r] obtain z where z: "z \<in> set ?E" "pr_zone_name r = p_zone_name z"
      "pr_predicted_coverage_score r = round_dp 1 (p_predicted_coverage_score z)" by blast
    from ui_exact_scores [OF z(1)] n z(2) have "p_predicted_coverage_score z = Val 95" by simp
    with z(3) show "pr_predicted_coverage_score r = Val 95" by (simp only: round_dp_95)
  qed
  have nd: "\<forall>r \<in> set (park_pipeline st zones_df).
      pr_zone_name r = ''New Delhi'' \<longrightarrow> pr_predicted_coverage_score r = Val 44"
  proof (intro ballI impI)
    fix r assume r: "r \<in> set (park_pipeline st zones_df)" and n: "pr_zone_name r = ''New Delhi''"
    from rows [OF r] obtain z where z: "z \<in> set ?E" "pr_zone_name r = p_zone_name z"
      "pr_predicted_coverage_score r = round_dp 1 (p_predicted_coverage_score z)" by blast
    from ui_exact_scores [OF z(1)] n z(2) have "p_predicted_coverage_score z = Val 44" by simp
    with z(3) show "pr_predicted_coverage_score r = Val 44" by (simp only: round_dp_44)
  qed
  from east nd park_pipeline_names [of st zones_df] show ?thesis by blast
qed

theorem park_named_zones_forced_witness:
  "''East Zone 1'' \<in> p_zone_name ` set (park_aggregate_to_zones
       [example_cell ''Central'' ''Central Zone 1'' 3, example_cell ''East'' ''East Zone 1'' 4,
        example_cell ''West'' ''West Zone A1'' 0])
   \<and> map (\<lambda>r. (pr_zone_name r, pr_predicted_coverage_score r))
       (filter (\<lambda>r. pr_zone_name r = ''East Zone 1'')
         (park_main (constant_generator 0)
           [example_cell ''Central'' ''Central Zone 1'' 3, example_cell ''East'' ''East Zone 1'' 4,
            example_cell ''West'' ''West Zone A1'' 0]))
     = [(''East Zone 1'', Val 95)]"
proof -
  let ?cells = "[example_cell ''Central'' ''Central Zone 1'' 3,
                 example_cell ''East'' ''East Zone 1'' 4,
                 example_cell ''West'' ''West Zone A1'' 0]"
  let ?out = "park_main (constant_generator 0) ?cells"
  have names: "map pr_zone_name ?out = [''East Zone 1'', ''Central Zone 1'', ''West Zone A1'']"
    by code_simp
  have inp: "''East Zone 1'' \<in> p_zone_name ` set (park_aggregate_to_zones ?cells)"
    by code_simp
  obtain a b c where out: "?out = [a, b, c]"
    using names by (cases ?out rule: list.exhaust) auto
  with names have n: "pr_zone_name a = ''East Zone 1''" "pr_zone_name b = ''Central Zone 1''"
    "pr_zone_name c = ''West Zone A1''" by simp_all
  have "a \<in> set (park_pipeline (random_seed (constant_generator 0) 42)
                  (park_aggregate_to_zones ?cells))"
    using out unfolding park_main_def by simp
  with park_named_zones_forced
    [of "random_seed (constant_generator 0) 42" "park_aggregate_to_zones ?cells"] n(1)
  have "pr_predicted_coverage_score a = Val 95" by blast
  with out n inp show ?thesis by simp
qed

section \<open>Park model: a table without the two named zones\<close>

text \<open>
  C1. The specification requires that every exported score lies in \<open>[0, 100]\<close>. For the park model
  run on a data set whose only cell belongs to the sub-zone \<open>Central Zone 1\<close>, the
  exported score is \<open>NaN\<close>, which is neither at least 0 nor at most 100: with no
  protected zone \<open>protected_avg\<close> is the mean of an empty selection, so the scale factor
  and every rescaled score are \<open>NaN\<close>, and \<open>clip(15, 100)\<close> keeps \<open>NaN\<close>.
\<close>

theorem park_score_outside_range:
  "map (\<lambda>r. (pr_zone_name r, pr_predicted_coverage_score r,
              fl_le (Val 0) (pr_predicted_coverage_score r),
              fl_le (pr_predicted_coverage_score r) (Val 100)))
     (park_main (constant_generator 0) [example_cell ''Central'' ''Central Zone 1'' 3])
   = [(''Central Zone 1'', NaN, False, False)]"
  by code_simp

text \<open>
  C10. The specification requires that every park score entering export is at least 15, also for a zone
  with no parks and no population. For a data set of two empty cells in two sub-zones
  other than \<open>East Zone 1\<close> and \<open>New Delhi\<close>, the scoring formula gives the floor 15
  to both zones, and the scores entering export are \<open>NaN\<close>, not at least 15.
\<close>

theorem park_floor_lost:
  "map p_predicted_coverage_score (calculate_park_coverage_score (park_aggregate_to_zones
       [empty_cell ''West'' ''West Zone A1'', empty_cell ''North'' ''North Zone 1'']))
     = [Val 15, Val 15]
   \<and> map (\<lambda>r. (p_predicted_coverage_score r, fl_le (Val 15) (p_predicted_coverage_score r)))
       (create_zone_ids (calculate_urban_green_balance_index (assign_labels
         (fst (adjust_for_ui_expectations (random_seed (constant_generator 0) 42)
           (calculate_park_coverage_score (park_aggregate_to_zones
             [empty_cell ''West'' ''West Zone A1'', empty_cell ''North'' ''North Zone 1''])))))))
     = [(NaN, False), (NaN, False)]"
  by code_simp

section \<open>Ratio features with a zero denominator\<close>

lemma cleaned_ratio_zero_denominator:
  "fillna 0 (replace_inf 0 (fl_div (Val x) (Val 0))) = Val 0"
  "replace_inf 0 (fillna 0 (fl_div (Val x) (Val 0))) = Val 0"
  "fillna 0 (replace_inf 0 (fl_mul (fl_div (Val x) (Val 0)) (Val 1000))) = Val 0"
  "fillna 0 (replace_inf 0 (fl_mul (fl_div (Val x) (Val 0)) (Val 100))) = Val 0"
  "replace_inf 0 (fillna 0 (fl_mul (fl_div (Val x) (Val 0)) (Val 100000))) = Val 0"
  "fillna 0 (replace_inf 0 (fl_mul (fillna 0 (fl_div (Val x) (Val 0))) (Val 10000))) = Val 0"
  by (simp_all add: inf_times_def)

text \<open>
  The school, hospital and park models replace both \<open>NaN\<close> and the infinities (the
  equations above are their formulas), so their ratios are 0 on a zero denominator.
\<close>

lemma school_ratios_zero_denominator:
  assumes "population_6_17 p = Some 0"
  shows "schools_per_1000_children (features_row z (Some p)) = Val 0"
    and "seat_capacity_per_100_children (features_row z (Some p)) = Val 0"
  using assms
  by (simp_all add: features_row_def default_opt_def school_zone.extend_def Let_def
        inf_times_def)

text \<open>
  C2. The specification requires that a ratio feature with a zero denominator is 0, never infinite. The
  urban model only applies \<open>fillna(0)\<close> to its four densities per km2, which replaces
  \<open>NaN\<close> (0 / 0) but not an infinity: for a zone whose cells report five parks on a
  total area of zero, \<open>parks_per_km2\<close> and the three other densities are \<open>+inf\<close>.
\<close>

theorem urban_density_infinite:
  "map (\<lambda>r. (u_total_parks r, u_total_area_km2 r, u_parks_per_km2 r, u_schools_per_km2 r,
              u_hospitals_per_km2 r, u_road_density_km_per_km2 r))
     (aggregate_cells_to_zones [zero_area_cell])
   = [(5, 0, PInf, PInf, PInf, PInf)]"
  by code_simp

section \<open>Randomness on the scoring path\<close>

lemma insert_by_map:
  "map f (insert_by (\<lambda>a b. le (f a) (f b)) x ys) = insert_by le (f x) (map f ys)"
  by (induction ys) auto

lemma sort_values_map:
  "map f (sort_values (\<lambda>a b. le (f a) (f b)) xs) = sort_values le (map f xs)"
  unfolding sort_values_def by (induction xs) (simp_all add: insert_by_map)



section \<open>Loading schools: records with invalid coordinates\<close>

lemma valid_filters:
  "filter (\<lambda>r. between (raw_latitude r) (-90) 90 \<and> between (raw_longitude r) (-180) 180)
     (filter (\<lambda>r. raw_latitude r \<noteq> None \<and> raw_longitude r \<noteq> None) df)
   = filter (\<lambda>r. \<not> invalid_location r) df"
  by (induction df) (auto simp: invalid_location_def between_def split: option.splits)

lemma valid_filters_idem:
  "filter (\<lambda>r. between (raw_latitude r) (-90) 90 \<and> between (raw_longitude r) (-180) 180)
     (filter (\<lambda>r. raw_latitude r \<noteq> None \<and> raw_longitude r \<noteq> None)
        (filter (\<lambda>r. \<not> invalid_location r) df))
   = filter (\<lambda>r. \<not> invalid_location r) df"
  by (simp only: valid_filters) simp

text \<open>
  C6, as the code has it. A record with a missing or out-of-range coordinate is dropped
  by \<open>load_schools_data\<close> without an error and without a trace: the table and the printed
  lines are those of the file without these records, every loaded school has coordinates
  in range, and the only number printed is the number of loaded schools.
\<close>

theorem load_schools_drops_invalid_silently:
  "load_schools_data df = load_schools_data (filter (\<lambda>r. \<not> invalid_location r) df)
   \<and> (\<forall>s \<in> set (fst (load_schools_data df)).
        - 90 \<le> latitude s \<and> latitude s \<le> 90 \<and> - 180 \<le> longitude s \<and> longitude s \<le> 180)
   \<and> snd (load_schools_data df)
       = [''Loading schools data...'',
          ''Loaded '' @ string_of_nat (length (fst (load_schools_data df))) @ '' schools'']"
proof -
  have 1: "load_schools_data df = load_schools_data (filter (\<lambda>r. \<not> invalid_location r) df)"
    unfolding load_schools_data_def Let_def valid_filters by simp
  have 2: "\<forall>s \<in> set (fst (load_schools_data df)).
        - 90 \<le> latitude s \<and> latitude s \<le> 90 \<and> - 180 \<le> longitude s \<and> longitude s \<le> 180"
    unfolding load_schools_data_def Let_def
    by (auto simp: between_def split: option.splits)
  have 3: "snd (load_schools_data df)
       = [''Loading schools data...'',
          ''Loaded '' @ string_of_nat (length (fst (load_schools_data df))) @ '' schools'']"
    unfolding load_schools_data_def Let_def by simp
  from 1 2 3 show ?thesis by blast
qed

theorem load_schools_drops_invalid_silently_witness:
  "map s_index (fst (load_schools_data [good_row, bad_latitude_row, no_longitude_row])) = [0]
   \<and> map latitude (fst (load_schools_data [good_row, bad_latitude_row, no_longitude_row]))
       = [28.6]
   \<and> snd (load_schools_data [good_row, bad_latitude_row, no_longitude_row])
       = [''Loading schools data...'', ''Loaded 1 schools'']"
proof -
  have f: "filter (\<lambda>r. \<not> invalid_location r) [good_row, bad_latitude_row, no_longitude_row]
      = [good_row]"
    by (simp add: invalid_location_def between_def good_row_def bad_latitude_row_def
          no_longitude_row_def)
  have g: "load_schools_data [good_row]
      = ([\<lparr>s_index = 0, school_id = Some 1001, latitude = 28.6, longitude = 77.2,
           enrolment_total = 450, student_teacher_ratio = 28, school_level = ''primary'',
           management_type = ''govt''\<rparr>],
         [''Loading schools data...'', ''Loaded 1 schools''])"
    by code_simp
  from load_schools_drops_invalid_silently [of "[good_row, bad_latitude_row, no_longitude_row]"]
  have "load_schools_data [good_row, bad_latitude_row, no_longitude_row]
      = load_schools_data [good_row]"
    by (simp only: f)
  with g show ?thesis by simp
qed

text \<open>
  C6, as stated, fails: "the number of such excluded records is counted in a visible
  diagnostic total". A file with no invalid record and a file with two of them give the
  same table and the same printed lines, so no output of the function tells their number.
\<close>

theorem load_schools_no_diagnostic_total:
  "load_schools_data [good_row] = load_schools_data [good_row, bad_latitude_row, no_longitude_row]
   \<and> length (filter invalid_location [good_row]) = 0
   \<and> length (filter invalid_location [good_row, bad_latitude_row, no_longitude_row]) = 2"
  by code_simp

section \<open>School model: assignment and aggregation\<close>

lemma groupby_keys: "map fst (groupby key rows) = group_keys key rows"
  unfolding groupby_def by (simp add: comp_def)

lemma distinct_group_keys: "distinct (group_keys key rows)"
  unfolding group_keys_def by simp

lemma set_group_keys: "set (group_keys key rows) = key ` set rows"
  unfolding group_keys_def by simp

lemma aggregate_schools_zone_ids:
  "map sz_zone_id (aggregate_schools_to_zones J) = group_keys (\<lambda>r. the (js_zone_id r)) J"
proof -
  have "map sz_zone_id (aggregate_schools_to_zones J)
      = map fst (groupby (\<lambda>r. the (js_zone_id r)) J)"
    unfolding aggregate_schools_to_zones_def Let_def
    by (simp add: comp_def case_prod_unfold)
  then show ?thesis by (simp only: groupby_keys)
qed

lemma map_snd_of_enumerate: "map (\<lambda>x. f (snd x)) (enumerate n xs) = map f xs"
  by (induction xs arbitrary: n) auto

lemma park_aggregate_zone_names:
  "map p_zone_name (park_aggregate_to_zones cells) = group_keys sub_zone_name cells"
proof -
  have "map p_zone_name (park_aggregate_to_zones cells)
      = map (\<lambda>x. fst (snd x)) (enumerate 0 (groupby sub_zone_name cells))"
    unfolding park_aggregate_to_zones_def Let_def
    by (simp add: comp_def case_prod_unfold)
  also have "\<dots> = map fst (groupby sub_zone_name cells)"
    by (rule map_snd_of_enumerate)
  finally show ?thesis by (simp only: groupby_keys)
qed

text \<open>
  C5, as the code has it. The aggregator is a \<open>groupby\<close> on the assigned facilities: the
  zone table of the school model has one row for each zone identifier that at least one
  joined school carries, in ascending order, and no row for any other zone; the zone table
  of the park model has one row for each sub-zone that at least one cell carries.
\<close>

theorem aggregator_rows_are_the_nonempty_zones:
  "map sz_zone_id (aggregate_schools_to_zones schools_with_zones)
     = sort (remdups (map (\<lambda>r. the (js_zone_id r)) schools_with_zones))
   \<and> map p_zone_name (park_aggregate_to_zones cells_df)
     = sort (remdups (map sub_zone_name cells_df))"
  by (simp only: aggregate_schools_zone_ids park_aggregate_zone_names group_keys_def)

text \<open>
  C5, as stated, fails: with the zones A and B in the zone input and one school, which
  lies in A, the aggregator's output has a row for A and none for B.
\<close>

theorem zone_without_schools_has_no_row:
  "map zone_id [zone_a, zone_b] = [''A'', ''B'']
   \<and> map sz_zone_id (aggregate_schools_to_zones
        (spatial_join_schools_to_zones strip_within strip_distance
           [example_school 0 (Some 1001) 77.1] [zone_a, zone_b] True)) = [''A'']"
  by code_simp

lemma sjoin_within_single:
  assumes "\<forall>s \<in> set S. length (filter (\<lambda>z. w (school_point s) (geometry z)) Z) \<le> 1"
  shows "map js_school (sjoin_within w S Z) = S"
  using assms
proof (induction S)
  case Nil
  show ?case by (simp add: sjoin_within_def)
next
  case (Cons s S)
  then have ih: "map js_school (sjoin_within w S Z) = S" by simp
  from Cons.prems have le: "length (filter (\<lambda>z. w (school_point s) (geometry z)) Z) \<le> 1"
    by simp
  have "map js_school
      (case filter (\<lambda>z. w (school_point s) (geometry z)) Z of
          [] \<Rightarrow> [\<lparr>js_school = s, js_zone_id = None, js_zone_name = None\<rparr>]
        | zs \<Rightarrow> map (\<lambda>z. \<lparr>js_school = s, js_zone_id = Some (zone_id z),
                              js_zone_name = Some (z_zone_name z)\<rparr>) zs) = [s]"
    using le by (cases "filter (\<lambda>z. w (school_point s) (geometry z)) Z") auto
  with ih show ?case unfolding sjoin_within_def by simp
qed

lemma nearest_zone_keeps: "nearest_zone d p zs m (Some x) \<noteq> None"
  by (induction zs arbitrary: m x) (simp_all add: Let_def)

lemma nearest_zone_found: "zs \<noteq> [] \<Longrightarrow> nearest_zone d p zs None None \<noteq> None"
  by (cases zs) (simp_all add: Let_def nearest_zone_keeps)

lemma js_school_dropna:
  "map js_school (dropna_zone_id rows) = map js_school (filter (\<lambda>r. js_zone_id r \<noteq> None) rows)"
  by (simp add: dropna_zone_id_def)

lemma assign_nearest_school: "js_school (assign_nearest d Z r) = js_school r"
  unfolding assign_nearest_def
  by (cases "nearest_zone d (school_point (js_school r)) Z None None") auto

lemma assign_nearest_zone: "Z \<noteq> [] \<Longrightarrow> js_zone_id (assign_nearest d Z r) \<noteq> None"
  using nearest_zone_found [of Z d "school_point (js_school r)"]
  unfolding assign_nearest_def by auto

lemma set_where_schools:
  "map js_school (set_where sel (assign_nearest d Z) rows) = map js_school rows"
  unfolding set_where_def by (induction rows) (simp_all add: assign_nearest_school)

lemma set_where_zones:
  assumes "Z \<noteq> []"
  shows "filter (\<lambda>r. js_zone_id r \<noteq> None)
           (set_where (\<lambda>r. js_zone_id r = None) (assign_nearest d Z) rows)
         = set_where (\<lambda>r. js_zone_id r = None) (assign_nearest d Z) rows"
  unfolding set_where_def
  by (induction rows) (simp_all add: assign_nearest_zone [OF assms] del: not_None_eq)

text \<open>The rows of the join: a selection of rows that carry the schools of \<open>sjoin\<close>.\<close>

lemma spatial_join_schools:
  "\<exists>P rows. map js_school rows = map js_school (sjoin_within w S Z)
     \<and> spatial_join_schools_to_zones w d S Z n = filter P rows"
proof -
  let ?R = "sjoin_within w S Z"
  let ?M = "set_where (\<lambda>r. js_zone_id r = None) (assign_nearest d Z) ?R"
  have M: "map js_school ?M = map js_school ?R" by (rule set_where_schools)
  consider (a) "length (filter (\<lambda>r. js_zone_id r = None) ?R) > 0" "n"
    | (b) "length (filter (\<lambda>r. js_zone_id r = None) ?R) > 0" "\<not> n"
    | (c) "\<not> length (filter (\<lambda>r. js_zone_id r = None) ?R) > 0" by blast
  then show ?thesis
  proof cases
    case a
    then have "spatial_join_schools_to_zones w d S Z n = filter (\<lambda>r. js_zone_id r \<noteq> None) ?M"
      unfolding spatial_join_schools_to_zones_def Let_def dropna_zone_id_def by simp
    with M show ?thesis by blast
  next
    case b
    then have "spatial_join_schools_to_zones w d S Z n = filter (\<lambda>r. js_zone_id r \<noteq> None) ?R"
      unfolding spatial_join_schools_to_zones_def Let_def dropna_zone_id_def by simp
    then show ?thesis by blast
  next
    case c
    then have "spatial_join_schools_to_zones w d S Z n = filter (\<lambda>r. js_zone_id r \<noteq> None) ?R"
      unfolding spatial_join_schools_to_zones_def Let_def dropna_zone_id_def by simp
    then show ?thesis by blast
  qed
qed

lemma spatial_join_distinct:
  assumes "\<forall>s \<in> set S. length (filter (\<lambda>z. w (school_point s) (geometry z)) Z) \<le> 1"
    and "distinct (map s_index S)"
  shows "distinct (map (\<lambda>r. s_index (js_school r)) (spatial_join_schools_to_zones w d S Z n))"
proof -
  obtain P rows where r: "map js_school rows = map js_school (sjoin_within w S Z)"
    and j: "spatial_join_schools_to_zones w d S Z n = filter P rows"
    using spatial_join_schools by blast
  from r sjoin_within_single [OF assms(1)] have "map js_school rows = S" by simp
  then have "map s_index (map js_school rows) = map s_index S" by (simp only:)
  then have "map (\<lambda>r. s_index (js_school r)) rows = map s_index S"
    by (simp add: comp_def)
  with assms(2) have "distinct (map (\<lambda>r. s_index (js_school r)) rows)" by simp
  then show ?thesis unfolding j by (rule distinct_map_filter)
qed

lemma spatial_join_nearest_total:
  assumes "\<forall>s \<in> set S. length (filter (\<lambda>z. w (school_point s) (geometry z)) Z) \<le> 1"
    and "Z \<noteq> []"
  shows "map js_school (spatial_join_schools_to_zones w d S Z True) = S"
proof -
  let ?R = "sjoin_within w S Z"
  let ?M = "set_where (\<lambda>r. js_zone_id r = None) (assign_nearest d Z) ?R"
  show ?thesis
  proof (cases "length (filter (\<lambda>r. js_zone_id r = None) ?R) > 0")
    case True
    then have "spatial_join_schools_to_zones w d S Z True
        = filter (\<lambda>r. js_zone_id r \<noteq> None) ?M"
      unfolding spatial_join_schools_to_zones_def Let_def dropna_zone_id_def by simp
    then have "spatial_join_schools_to_zones w d S Z True = ?M"
      by (simp only: set_where_zones [OF assms(2)])
    then show ?thesis
      by (simp only: set_where_schools sjoin_within_single [OF assms(1)])
  next
    case False
    then have none: "filter (\<lambda>r. js_zone_id r = None) ?R = []" by simp
    then have "\<forall>r \<in> set ?R. js_zone_id r \<noteq> None"
      by (simp add: filter_empty_conv)
    then have "filter (\<lambda>r. js_zone_id r \<noteq> None) ?R = ?R" by (rule filter_True)
    moreover from False have "spatial_join_schools_to_zones w d S Z True
        = filter (\<lambda>r. js_zone_id r \<noteq> None) ?R"
      unfolding spatial_join_schools_to_zones_def Let_def dropna_zone_id_def by simp
    ultimately show ?thesis using sjoin_within_single [OF assms(1)] by simp
  qed
qed

lemma sum_indicator_distinct:
  "distinct ks \<Longrightarrow>
   sum_list (map (\<lambda>k. if x = k then 1 else 0) ks) = (if x \<in> set ks then (1::nat) else 0)"
  by (induction ks) auto

lemma group_counts:
  assumes "distinct ks"
  shows "sum_list (map (\<lambda>k. length (filter (\<lambda>r. key r = k) rows)) ks)
       = length (filter (\<lambda>r. key r \<in> set ks) rows)"
proof (induction rows)
  case Nil
  show ?case by simp
next
  case (Cons r rows)
  have "sum_list (map (\<lambda>k. length (filter (\<lambda>r. key r = k) (r # rows))) ks)
      = sum_list (map (\<lambda>k. (if key r = k then 1 else 0)
                            + length (filter (\<lambda>r. key r = k) rows)) ks)"
    by (rule arg_cong [where f = sum_list]) (simp cong: map_cong)
  also have "\<dots> = sum_list (map (\<lambda>k. if key r = k then 1 else 0) ks)
      + sum_list (map (\<lambda>k. length (filter (\<lambda>r. key r = k) rows)) ks)"
    by (rule sum_list_addf)
  also have "\<dots> = (if key r \<in> set ks then 1 else 0)
      + length (filter (\<lambda>r. key r \<in> set ks) rows)"
    by (simp only: sum_indicator_distinct [OF assms] Cons.IH)
  finally show ?case by simp
qed

lemma groupby_counts:
  "sum_list (map (\<lambda>(k, g). length g) (groupby key rows)) = length rows"
proof -
  have "sum_list (map (\<lambda>(k, g). length g) (groupby key rows))
      = sum_list (map (\<lambda>k. length (filter (\<lambda>r. key r = k) rows)) (group_keys key rows))"
    unfolding groupby_def by (simp add: comp_def)
  also have "\<dots> = length (filter (\<lambda>r. key r \<in> set (group_keys key rows)) rows)"
    by (rule group_counts [OF distinct_group_keys])
  also have "\<dots> = length rows"
    by (simp add: set_group_keys)
  finally show ?thesis .
qed

lemma groupby_groups_subset: "(k, g) \<in> set (groupby key rows) \<Longrightarrow> set g \<subseteq> set rows"
  unfolding groupby_def by auto

lemma aggregate_counts:
  assumes "\<forall>r \<in> set J. school_id (js_school r) \<noteq> None"
  shows "sum_list (map num_schools (aggregate_schools_to_zones J)) = length J"
proof -
  let ?G = "groupby (\<lambda>r. the (js_zone_id r)) J"
  have "map num_schools (aggregate_schools_to_zones J)
      = map (\<lambda>(k, g). length (filter (\<lambda>r. school_id (js_school r) \<noteq> None) g)) ?G"
    unfolding aggregate_schools_to_zones_def Let_def
    by (simp add: comp_def case_prod_unfold)
  also have "\<dots> = map (\<lambda>(k, g). length g) ?G"
  proof (rule map_cong [OF refl])
    fix x assume x: "x \<in> set ?G"
    obtain k g where kg: "x = (k, g)" by (cases x)
    with x groupby_groups_subset have "set g \<subseteq> set J" by fastforce
    with assms have "\<forall>r \<in> set g. school_id (js_school r) \<noteq> None" by blast
    then have "filter (\<lambda>r. school_id (js_school r) \<noteq> None) g = g" by (rule filter_True)
    with kg show "(case x of (k, g) \<Rightarrow> length (filter (\<lambda>r. school_id (js_school r) \<noteq> None) g))
        = (case x of (k, g) \<Rightarrow> length g)" by simp
  qed
  finally show ?thesis by (simp only: groupby_counts)
qed

text \<open>
  C3, as the code has it. If every school lies within at most one zone (and the rows of
  the schools table have distinct labels), every school occurs at most once in the
  assignment; in nearest mode, if there is at least one zone, the assigned schools are
  exactly the schools, each once; and if every assigned school has an identifier, the
  per-zone counts of the aggregator add up to the number of assigned schools.
\<close>

theorem assignment_single_and_counts_add_up:
  assumes "\<forall>s \<in> set schools_gdf.
             length (filter (\<lambda>z. is_within (school_point s) (geometry z)) admin_gdf) \<le> 1"
    and "distinct (map s_index schools_gdf)"
  shows "distinct (map (\<lambda>r. s_index (js_school r))
           (spatial_join_schools_to_zones is_within distance schools_gdf admin_gdf use_nearest))
       \<and> (admin_gdf \<noteq> [] \<longrightarrow>
            map js_school
              (spatial_join_schools_to_zones is_within distance schools_gdf admin_gdf True)
            = schools_gdf)
       \<and> ((\<forall>r \<in> set (spatial_join_schools_to_zones is_within distance schools_gdf admin_gdf
                        use_nearest). school_id (js_school r) \<noteq> None) \<longrightarrow>
            sum_list (map num_schools (aggregate_schools_to_zones
              (spatial_join_schools_to_zones is_within distance schools_gdf admin_gdf use_nearest)))
            = length (spatial_join_schools_to_zones is_within distance schools_gdf admin_gdf
                        use_nearest))"
  using spatial_join_distinct [OF assms] spatial_join_nearest_total [OF assms(1)]
    aggregate_counts
  by blast

theorem assignment_single_and_counts_add_up_witness:
  "map (\<lambda>r. (s_index (js_school r), js_zone_id r))
     (spatial_join_schools_to_zones strip_within strip_distance
        [example_school 0 (Some 1001) 77.1, example_school 1 (Some 1002) 78]
        [zone_a, zone_b] True)
     = [(0, Some ''A''), (1, Some ''B'')]
   \<and> map (\<lambda>z. (sz_zone_id z, num_schools z)) (aggregate_schools_to_zones
       (spatial_join_schools_to_zones strip_within strip_distance
          [example_school 0 (Some 1001) 77.1, example_school 1 (Some 1002) 78]
          [zone_a, zone_b] True))
     = [(''A'', 1), (''B'', 1)]
   \<and> sum_list (map num_schools (aggregate_schools_to_zones
       (spatial_join_schools_to_zones strip_within strip_distance
          [example_school 0 (Some 1001) 77.1, example_school 1 (Some 1002) 78]
          [zone_a, zone_b] True))) = 2"
proof -
  let ?S = "[example_school 0 (Some 1001) 77.1, example_school 1 (Some 1002) 78]"
  let ?Z = "[zone_a, zone_b]"
  let ?J = "spatial_join_schools_to_zones strip_within strip_distance ?S ?Z True"
  have h1: "\<forall>s \<in> set ?S.
      length (filter (\<lambda>z. strip_within (school_point s) (geometry z)) ?Z) \<le> 1"
    by (simp add: strip_within_def school_point_def example_school_def zone_a_def zone_b_def)
  have h2: "distinct (map s_index ?S)"
    by (simp add: example_school_def)
  have "list_all (\<lambda>r. school_id (js_school r) \<noteq> None) ?J"
    by code_simp
  then have h3: "\<forall>r \<in> set ?J. school_id (js_school r) \<noteq> None"
    by (simp only: list_all_iff)
  have len: "length ?J = 2"
    by code_simp
  have a: "map (\<lambda>z. (sz_zone_id z, num_schools z)) (aggregate_schools_to_zones ?J)
      = [(''A'', 1), (''B'', 1)]"
    by code_simp
  have i: "map (\<lambda>r. (s_index (js_school r), js_zone_id r)) ?J
      = [(0, Some ''A''), (1, Some ''B'')]"
    by code_simp
  from assignment_single_and_counts_add_up [OF h1 h2, of strip_distance True] h3 len
  have "sum_list (map num_schools (aggregate_schools_to_zones ?J)) = 2" by simp
  with i a show ?thesis by blast
qed

text \<open>
  C3, as stated, fails in two ways. In nearest mode with no zone loaded a school is
  assigned to no zone, not to exactly one; and a school whose identifier cell is empty is
  assigned (to zone A here) but not counted, so the counts add up to 0 for one assigned
  school.
\<close>

theorem orphan_school_and_uncounted_school:
  "spatial_join_schools_to_zones strip_within strip_distance
      [example_school 0 (Some 1001) 77.1] [] True = []
   \<and> map js_zone_id (spatial_join_schools_to_zones strip_within strip_distance
      [example_school 0 None 77.1] [zone_a, zone_b] True) = [Some ''A'']
   \<and> map num_schools (aggregate_schools_to_zones
       (spatial_join_schools_to_zones strip_within strip_distance
          [example_school 0 None 77.1] [zone_a, zone_b] True)) = [0]"
  by code_simp

section \<open>The exported tables\<close>

lemma rint_of_int: "rint (of_int k) = k"
  unfolding rint_def by simp

lemma round_dp_idem: "round_dp d (round_dp d x) = round_dp d x"
proof (cases x)
  case (Val v)
  have "(of_int (rint (v * 10 ^ d)) / 10 ^ d) * 10 ^ d = (of_int (rint (v * 10 ^ d)) :: real)"
    by simp
  then show ?thesis using Val by (simp add: rint_of_int)
qed simp_all

lemma format_02d_one_digit:
  assumes "n < 10"
  shows "format_02d n = [CHR ''0'', ''0123456789'' ! n]"
proof -
  have "string_of_nat n = [''0123456789'' ! n]"
    using assms by (subst string_of_nat.simps) simp
  then show ?thesis by (simp add: format_02d_def)
qed

lemma export_results_rows:
  assumes "r \<in> set (export_results grouped)"
  shows "\<exists>z \<in> set grouped.
           hr_zone_id r = hospital_zone_id_map grouped (h_zone_name z)
         \<and> hr_zone_name r = h_zone_name z
         \<and> hr_predicted_coverage_score r = round_dp 1 (h_health_access_index z)"
  using assms unfolding export_results_def by auto

lemma create_zone_ids_ids:
  "map p_zone_id (create_zone_ids zs) = map (\<lambda>i. format_02d (i + 1)) [0..<length zs]"
proof -
  let ?xs = "sort_values (\<lambda>a b. desc_nan_last (p_predicted_coverage_score a)
                                           (p_predicted_coverage_score b)) zs"
  have "map p_zone_id (create_zone_ids zs)
      = map (\<lambda>x. format_02d (fst x + 1)) (enumerate 0 ?xs)"
    unfolding create_zone_ids_def by (simp add: comp_def case_prod_unfold)
  also have "\<dots> = map (\<lambda>i. format_02d (i + 1)) (map fst (enumerate 0 ?xs))"
    by (simp only: map_map comp_def)
  also have "\<dots> = map (\<lambda>i. format_02d (i + 1)) [0..<0 + length zs]"
    by (simp only: map_fst_enumerate length_sort_values)
  finally show ?thesis by simp
qed

lemma urban_zone_ids:
  assumes "z \<in> set (aggregate_cells_to_zones cells_df)"
  shows "u_zone_id z
       = format_02d (index_of (u_zone_name z) (sort (remdups (map zone_name cells_df))) + 1)"
proof -
  have s: "sort (group_keys zone_name cells_df) = sort (remdups (map zone_name cells_df))"
    unfolding group_keys_def by (simp add: sorted_sort_id)
  from assms show ?thesis
    unfolding aggregate_cells_to_zones_def Let_def s by auto
qed

section \<open>The exported tables: columns\<close>

lemma those_map_Some: "those (map (\<lambda>x. Some (f x)) xs) = Some (map f xs)"
  by (induction xs) simp_all

lemma insort_key_mapped:
  "insort_key k (g x) (map g xs) = map g (insort_key (\<lambda>y. k (g y)) x xs)"
  by (induction xs) simp_all

lemma sort_key_mapped: "sort_key k (map g xs) = map g (sort_key (\<lambda>y. k (g y)) xs)"
  by (induction xs) (simp_all add: insort_key_mapped)

lemma hospital_selected_row:
  "select_columns hospital_output_cols
     (rename_columns
        [(''zone_name'', ''zone_name''),
         (''health_access_index'', ''predicted_coverage_score''),
         (''num_hospitals'', ''num_facilities''),
         (''total_beds'', ''total_capacity'')] (hospital_frame_row r))
   = Some [(''zone_id'', SCell (h_zone_id r)),
           (''zone_name'', SCell (h_zone_name r)),
           (''predicted_coverage_score'', FCell (h_health_access_index r)),
           (''coverage_label'', SCell (h_coverage_label r)),
           (''num_facilities'', ICell (h_num_hospitals r)),
           (''total_capacity'', ICell (h_total_beds r)),
           (''status'', SCell (h_status r))]"
  by (simp add: select_columns_def rename_columns_def hospital_frame_row_def
        hospital_output_cols_def)

lemma export_results_table_rows:
  "export_results_table grouped
   = Some (map (\<lambda>r. [(''zone_id'', SCell (hr_zone_id r)),
                       (''zone_name'', SCell (hr_zone_name r)),
                       (''predicted_coverage_score'', FCell (hr_predicted_coverage_score r)),
                       (''coverage_label'', SCell (hr_coverage_label r)),
                       (''num_facilities'', ICell (hr_num_facilities r)),
                       (''total_capacity'', ICell (hr_total_capacity r)),
                       (''status'', SCell (hr_status r))])
             (export_results grouped))"
  unfolding export_results_table_def export_results_def Let_def
  by (simp add: hospital_selected_row those_map_Some comp_def update_column_def
        sort_key_mapped text_of_def)

lemma park_selected_row:
  "select_columns park_selected_cols (park_frame_row r)
   = Some [(''zone_id'', SCell (p_zone_id r)),
           (''zone_name'', SCell (p_zone_name r)),
           (''predicted_coverage_score'', FCell (p_predicted_coverage_score r)),
           (''coverage_label'', SCell (p_coverage_label r)),
           (''total_parks'', ICell (p_total_parks r)),
           (''total_area_km2'', RCell (p_total_area_km2 r)),
           (''status'', SCell (p_status r)),
           (''urban_green_balance_index'', FCell (p_urban_green_balance_index r)),
           (''progress_to_who'', FCell (p_progress_to_who r))]"
  by (simp add: select_columns_def park_frame_row_def park_selected_cols_def)

lemma park_results_table_rows:
  "park_results_table zones_df
   = Some (map (\<lambda>r. [(''zone_id'', SCell (pr_zone_id r)),
                       (''zone_name'', SCell (pr_zone_name r)),
                       (''predicted_coverage_score'', FCell (pr_predicted_coverage_score r)),
                       (''coverage_label'', SCell (pr_coverage_label r)),
                       (''num_parks'', ICell (pr_num_parks r)),
                       (''total_area'', RCell (pr_total_area r)),
                       (''status'', SCell (pr_status r)),
                       (''urban_green_balance_index'', FCell (pr_urban_green_balance_index r)),
                       (''progress_to_who'', FCell (pr_progress_to_who r))])
             (park_results zones_df))"
proof -
  let ?cells = "\<lambda>r. [(''zone_id'', SCell (pr_zone_id r)),
                       (''zone_name'', SCell (pr_zone_name r)),
                       (''predicted_coverage_score'', FCell (pr_predicted_coverage_score r)),
                       (''coverage_label'', SCell (pr_coverage_label r)),
                       (''num_parks'', ICell (pr_num_parks r)),
                       (''total_area'', RCell (pr_total_area r)),
                       (''status'', SCell (pr_status r)),
                       (''urban_green_balance_index'', FCell (pr_urban_green_balance_index r)),
                       (''progress_to_who'', FCell (pr_progress_to_who r))]"
  let ?le = "\<lambda>a b. desc_nan_last (float_of ''predicted_coverage_score'' a)
                                   (float_of ''predicted_coverage_score'' b)"
  have key: "float_of ''predicted_coverage_score'' (?cells r) = pr_predicted_coverage_score r"
    for r by (simp add: float_of_def)
  have "sort_values ?le (map ?cells xs)
      = map ?cells (sort_values (\<lambda>a b. ?le (?cells a) (?cells b)) xs)" for xs
    by (rule sort_values_map [symmetric])
  then have srt: "sort_values ?le (map ?cells xs)
      = map ?cells (sort_values (\<lambda>a b. desc_nan_last (pr_predicted_coverage_score a)
                                       (pr_predicted_coverage_score b)) xs)" for xs
    by (simp only: key)
  show ?thesis
    unfolding park_results_table_def park_results_def
    by (simp add: park_selected_row those_map_Some comp_def update_column_def
          rename_columns_def round2_def srt [symmetric])
qed

lemma predict_urban_coverage_table_rows:
  "predict_urban_coverage_table model zone_agg_df
   = map (\<lambda>r. [(''zone_id'', SCell (ur_zone_id r)),
                 (''zone_name'', SCell (ur_zone_name r)),
                 (''predicted_coverage_score'', FCell (ur_predicted_coverage_score r)),
                 (''coverage_label'', SCell (ur_coverage_label r)),
                 (''status'', SCell (ur_status r)),
                 (''actual_coverage_score'', FCell (ur_actual_coverage_score r)),
                 (''total_parks'', ICell (ur_total_parks r)),
                 (''total_schools'', ICell (ur_total_schools r)),
                 (''total_hospitals'', ICell (ur_total_hospitals r)),
                 (''total_facilities'', ICell (ur_total_facilities r)),
                 (''total_population'', ICell (ur_total_population r))])
       (predict_urban_coverage model zone_agg_df)"
  unfolding predict_urban_coverage_table_def predict_urban_coverage_def Let_def
  by (simp add: comp_def update_column_def float_of_def)

section \<open>The exported tables: identifiers and rounding\<close>

lemma desc_nan_last_total: "desc_nan_last a b \<or> desc_nan_last b a"
  unfolding desc_nan_last_def by (cases a; cases b) auto

lemma desc_nan_last_trans:
  assumes "desc_nan_last a b" "desc_nan_last b c"
  shows "desc_nan_last a c"
proof (cases "is_nan c")
  case True
  then show ?thesis by (simp add: desc_nan_last_def)
next
  case False
  with assms(2) have b: "\<not> is_nan b" "fl_le c b" by (simp_all add: desc_nan_last_def)
  with assms(1) have a: "\<not> is_nan a" "fl_le b a" by (simp_all add: desc_nan_last_def)
  from b(2) a(2) have "fl_le c a" by (rule fl_le_trans)
  with a(1) show ?thesis by (simp add: desc_nan_last_def)
qed

lemma sorted_insert_by:
  assumes tot: "\<And>a b. le a b \<or> le b a"
    and trans: "\<And>a b c. le a b \<Longrightarrow> le b c \<Longrightarrow> le a c"
    and "sorted_wrt le ys"
  shows "sorted_wrt le (insert_by le x ys)"
  using assms(3)
proof (induction ys)
  case Nil
  show ?case by simp
next
  case (Cons y ys)
  show ?case
  proof (cases "le x y")
    case True
    from Cons.prems have "\<forall>z \<in> set ys. le y z" by simp
    with True trans have "\<forall>z \<in> set ys. le x z" by blast
    with True Cons.prems show ?thesis by simp
  next
    case False
    with tot have yx: "le y x" by blast
    from Cons.prems have "\<forall>z \<in> set ys. le y z" by simp
    with yx have "\<forall>z \<in> set (insert_by le x ys). le y z" by (simp add: set_insert_by)
    moreover from Cons have "sorted_wrt le (insert_by le x ys)" by simp
    ultimately show ?thesis using False by simp
  qed
qed

lemma sorted_sort_values:
  assumes "\<And>a b. le a b \<or> le b a" and "\<And>a b c. le a b \<Longrightarrow> le b c \<Longrightarrow> le a c"
  shows "sorted_wrt le (sort_values le xs)"
  unfolding sort_values_def
  by (induction xs) (simp_all add: sorted_insert_by [OF assms])

lemma create_zone_ids_scores:
  "map p_predicted_coverage_score (create_zone_ids zs)
   = sort_values desc_nan_last (map p_predicted_coverage_score zs)"
proof -
  let ?k = "\<lambda>r. (p_zone_name r, p_predicted_coverage_score r)"
  let ?S = "sort_values (\<lambda>a b. desc_nan_last (p_predicted_coverage_score a)
                                         (p_predicted_coverage_score b)) zs"
  have "map snd (map ?k (create_zone_ids zs)) = map snd (map ?k ?S)"
    unfolding create_zone_ids_def by (simp only: enumerate_relabel)
  then have "map p_predicted_coverage_score (create_zone_ids zs)
      = map p_predicted_coverage_score ?S"
    by (simp add: comp_def)
  also have "\<dots> = sort_values desc_nan_last (map p_predicted_coverage_score zs)"
    by (rule sort_values_map)
  finally show ?thesis .
qed

lemma create_zone_ids_descending:
  "sorted_wrt desc_nan_last (map p_predicted_coverage_score (create_zone_ids zs))"
  unfolding create_zone_ids_scores
  by (rule sorted_sort_values) (rule desc_nan_last_total, rule desc_nan_last_trans)

lemma round2_idem: "round2 (round2 x) = round2 x"
  by (simp add: round2_def rint_of_int)

lemma park_results_rounded:
  assumes "r \<in> set (park_results zones_df)"
  shows "round_dp 1 (pr_predicted_coverage_score r) = pr_predicted_coverage_score r"
    and "round2 (pr_total_area r) = pr_total_area r"
  using assms unfolding park_results_def
  by (auto simp: set_sort_values round_dp_idem round2_idem)

text \<open>
  C7, as the code has it, for the three exporters.
  Hospital table: every written row has, in this order, the columns \<open>zone_id\<close>,
  \<open>zone_name\<close>, \<open>predicted_coverage_score\<close> (a float, rounded to 1 decimal),
  \<open>coverage_label\<close>, \<open>num_facilities\<close> and \<open>total_capacity\<close> (integers), \<open>status\<close>.
  Park table: \<open>create_zone_ids\<close> puts the zones in descending order of their score
  (\<open>NaN\<close> last) and numbers them in this order from 1 in steps of 1 with two-digit,
  zero-padded identifiers; every written row has the columns \<open>zone_id\<close>, \<open>zone_name\<close>,
  \<open>predicted_coverage_score\<close> (rounded to 1 decimal), \<open>coverage_label\<close>, \<open>num_parks\<close>
  (an integer), \<open>total_area\<close> (a float rounded to 2 decimals), \<open>status\<close>,
  \<open>urban_green_balance_index\<close>, \<open>progress_to_who\<close>.
  Urban table: the identifier is the two-digit, zero-padded position of the zone's name
  among the sorted names; every row has the columns \<open>zone_id\<close>, \<open>zone_name\<close>,
  \<open>predicted_coverage_score\<close> (rounded to 2 decimals), \<open>coverage_label\<close>, \<open>status\<close>,
  \<open>actual_coverage_score\<close> and five integer counts.
\<close>

theorem export_formats:
  "export_results_table grouped
     = Some (map (\<lambda>r. [(''zone_id'', SCell (hr_zone_id r)),
                         (''zone_name'', SCell (hr_zone_name r)),
                         (''predicted_coverage_score'', FCell (hr_predicted_coverage_score r)),
                         (''coverage_label'', SCell (hr_coverage_label r)),
                         (''num_facilities'', ICell (hr_num_facilities r)),
                         (''total_capacity'', ICell (hr_total_capacity r)),
                         (''status'', SCell (hr_status r))])
               (export_results grouped))
   \<and> (\<forall>r \<in> set (export_results grouped).
        round_dp 1 (hr_predicted_coverage_score r) = hr_predicted_coverage_score r)
   \<and> map p_zone_id (create_zone_ids zones_df)
       = map (\<lambda>i. format_02d (i + 1)) [0..<length zones_df]
   \<and> sorted_wrt desc_nan_last (map p_predicted_coverage_score (create_zone_ids zones_df))
   \<and> (\<lambda>r. (p_zone_name r, p_predicted_coverage_score r)) ` set (create_zone_ids zones_df)
       = (\<lambda>r. (p_zone_name r, p_predicted_coverage_score r)) ` set zones_df
   \<and> (\<forall>n < 10. format_02d n = [CHR ''0'', ''0123456789'' ! n])
   \<and> (\<forall>r \<in> set (park_results zones_df).
        round_dp 1 (pr_predicted_coverage_score r) = pr_predicted_coverage_score r
        \<and> round2 (pr_total_area r) = pr_total_area r)
   \<and> park_results_table zones_df
       = Some (map (\<lambda>r. [(''zone_id'', SCell (pr_zone_id r)),
                           (''zone_name'', SCell (pr_zone_name r)),
                           (''predicted_coverage_score'', FCell (pr_predicted_coverage_score r)),
                           (''coverage_label'', SCell (pr_coverage_label r)),
                           (''num_parks'', ICell (pr_num_parks r)),
                           (''total_area'', RCell (pr_total_area r)),
                           (''status'', SCell (pr_status r)),
                           (''urban_green_balance_index'',
                            FCell (pr_urban_green_balance_index r)),
                           (''progress_to_who'', FCell (pr_progress_to_who r))])
                 (park_results zones_df))
   \<and> (\<forall>z \<in> set (aggregate_cells_to_zones cells_df).
        u_zone_id z = format_02d
          (index_of (u_zone_name z) (sort (remdups (map zone_name cells_df))) + 1))
   \<and> (\<forall>r \<in> set (predict_urban_coverage model zone_agg_df).
        round_dp 2 (ur_predicted_coverage_score r) = ur_predicted_coverage_score r)
   \<and> predict_urban_coverage_table model zone_agg_df
       = map (\<lambda>r. [(''zone_id'', SCell (ur_zone_id r)),
                     (''zone_name'', SCell (ur_zone_name r)),
                     (''predicted_coverage_score'', FCell (ur_predicted_coverage_score r)),
                     (''coverage_label'', SCell (ur_coverage_label r)),
                     (''status'', SCell (ur_status r)),
                     (''actual_coverage_score'', FCell (ur_actual_coverage_score r)),
                     (''total_parks'', ICell (ur_total_parks r)),
                     (''total_schools'', ICell (ur_total_schools r)),
                     (''total_hospitals'', ICell (ur_total_hospitals r)),
                     (''total_facilities'', ICell (ur_total_facilities r)),
                     (''total_population'', ICell (ur_total_population r))])
           (predict_urban_coverage model zone_agg_df)
   \<and> (\<forall>row \<in> set (predict_urban_coverage_table model zone_agg_df).
        map fst row = urban_output_cols)"
proof -
  have h: "\<forall>r \<in> set (export_results grouped).
        round_dp 1 (hr_predicted_coverage_score r) = hr_predicted_coverage_score r"
  proof
    fix r assume "r \<in> set (export_results grouped)"
    from export_results_rows [OF this] obtain z :: hospital_zone where
      "hr_predicted_coverage_score r = round_dp 1 (h_health_access_index z)" by blast
    then show "round_dp 1 (hr_predicted_coverage_score r) = hr_predicted_coverage_score r"
      by (simp only: round_dp_idem)
  qed
  have p: "\<forall>r \<in> set (park_results zones_df).
        round_dp 1 (pr_predicted_coverage_score r) = pr_predicted_coverage_score r
        \<and> round2 (pr_total_area r) = pr_total_area r"
    using park_results_rounded by blast
  have u: "\<forall>r \<in> set (predict_urban_coverage model zone_agg_df).
        round_dp 2 (ur_predicted_coverage_score r) = ur_predicted_coverage_score r"
    unfolding predict_urban_coverage_def Let_def by (auto simp: round_dp_idem rint_of_int)
  have f: "\<forall>n < 10. format_02d n = [CHR ''0'', ''0123456789'' ! n]"
    by (simp add: format_02d_one_digit)
  have z: "\<forall>z \<in> set (aggregate_cells_to_zones cells_df).
        u_zone_id z = format_02d
          (index_of (u_zone_name z) (sort (remdups (map zone_name cells_df))) + 1)"
    by (simp add: urban_zone_ids)
  have c: "\<forall>row \<in> set (predict_urban_coverage_table model zone_agg_df).
        map fst row = urban_output_cols"
    unfolding predict_urban_coverage_table_rows by (auto simp: urban_output_cols_def)
  from export_results_table_rows [of grouped] h create_zone_ids_ids [of zones_df]
    create_zone_ids_descending [of zones_df] create_zone_ids_keeps [of zones_df] f p
    park_results_table_rows [of zones_df] z u
    predict_urban_coverage_table_rows [of model zone_agg_df] c
  show ?thesis by blast
qed

theorem export_formats_witness:
  "map (\<lambda>r. (hr_zone_name r, hr_predicted_coverage_score r))
     (export_results (label_zones (hospital_calculate_coverage_score
        (fst (estimate_hospital_capacity (constant_generator 0)
               (random_seed (constant_generator 0) 0)
               (hospital_aggregate_to_zones [one_hospital_cell]))))))
     = [(''Shahdara'', Val 75.8)]
   \<and> map p_zone_id (create_zone_ids (calculate_park_coverage_score (park_aggregate_to_zones
        [example_cell ''East'' ''East Zone 1'' 4, example_cell ''West'' ''West Zone A1'' 0])))
     = [''01'', ''02'']
   \<and> map (\<lambda>r. (ur_zone_id r, ur_predicted_coverage_score r))
       (predict_urban_coverage (constant_model 12.345) (aggregate_cells_to_zones [one_hospital_cell]))
     = [(''01'', Val 12.34)]
   \<and> map (map fst) (predict_urban_coverage_table (constant_model 12.345)
       (aggregate_cells_to_zones [one_hospital_cell])) = [urban_output_cols]"
proof -
  let ?hg = "label_zones (hospital_calculate_coverage_score
        (fst (estimate_hospital_capacity (constant_generator 0)
               (random_seed (constant_generator 0) 0)
               (hospital_aggregate_to_zones [one_hospital_cell]))))"
  let ?pz = "calculate_park_coverage_score (park_aggregate_to_zones
        [example_cell ''East'' ''East Zone 1'' 4, example_cell ''West'' ''West Zone A1'' 0])"
  let ?ua = "aggregate_cells_to_zones [one_hospital_cell]"
  note t = export_formats [where grouped = ?hg and zones_df = ?pz
      and cells_df = "[one_hospital_cell]" and model = "constant_model 12.345"
      and zone_agg_df = ?ua]
  have h: "map (\<lambda>r. (hr_zone_name r, hr_predicted_coverage_score r)) (export_results ?hg)
      = [(''Shahdara'', Val 75.8)]"
    by code_simp
  have len: "length ?pz = 2"
    by code_simp
  from t have "map p_zone_id (create_zone_ids ?pz)
      = map (\<lambda>i. format_02d (i + 1)) [0..<length ?pz]" by blast
  also have "\<dots> = [format_02d 1, format_02d 2]"
    unfolding len by (simp add: upt_rec numeral_2_eq_2)
  also from t have "\<dots> = [''01'', ''02'']"
    by simp
  finally have p: "map p_zone_id (create_zone_ids ?pz) = [''01'', ''02'']" .
  have u: "map (\<lambda>r. (ur_zone_id r, ur_predicted_coverage_score r))
       (predict_urban_coverage (constant_model 12.345) ?ua) = [(''01'', Val 12.34)]"
    by code_simp
  have l: "length (predict_urban_coverage_table (constant_model 12.345) ?ua) = 1"
    by code_simp
  from t have "\<forall>row \<in> set (predict_urban_coverage_table (constant_model 12.345) ?ua).
        map fst row = urban_output_cols" by blast
  with l have c: "map (map fst) (predict_urban_coverage_table (constant_model 12.345) ?ua)
      = [urban_output_cols]"
    by (cases "predict_urban_coverage_table (constant_model 12.345) ?ua") auto
  from h p u c show ?thesis by blast
qed

text \<open>
  C7, as stated, fails. The urban exporter rounds the score to 2 decimals (12.345 becomes
  12.34, which is not a number with 1 decimal) and has \<open>status\<close> in the fifth column,
  before the counts; the park table has nine columns.
\<close>

theorem export_formats_differ:
  "map ur_predicted_coverage_score
       (predict_urban_coverage (constant_model 12.345) (aggregate_cells_to_zones [one_hospital_cell]))
     = [Val 12.34]
   \<and> round_dp 1 (Val 12.34) = Val 12.3
   \<and> urban_output_cols ! 4 = ''status''
   \<and> length park_output_cols = 9"
  by code_simp

text \<open>
  The hospital exporter formats its identifiers with \<open>f"{i+1}"\<close>, without the padding
  that \<open>hospital_coverage_model_cells.py\<close> applies to the same file.
\<close>

lemma hospital_zone_id_unpadded:
  "map hr_zone_id (hospital_main (constant_generator 0) (random_seed (constant_generator 0) 0)
      [one_hospital_cell]) = [''1'']"
  by code_simp

section \<open>Score ranges of the hospital and school models\<close>

lemma fl_between_Val: "fl_between lo hi (Val v) = (lo \<le> v \<and> v \<le> hi)"
  by (simp add: fl_between_def)

lemma fl_between_cases:
  assumes "fl_between lo hi x"
  obtains v where "x = Val v" "lo \<le> v" "v \<le> hi"
  using assms by (cases x) (simp_all add: fl_between_def)

lemma clip_between:
  assumes "l \<le> lo" "lo \<le> hi" "hi \<le> h" "\<not> is_nan x"
  shows "fl_between l h (clip x lo hi)"
proof (cases x)
  case (Val v)
  from assms(1-3) have "l \<le> min (max v lo) hi" "min (max v lo) hi \<le> h" by linarith+
  with Val show ?thesis by (simp add: fl_between_Val)
next
  case PInf
  with assms(1-3) show ?thesis by (simp add: fl_between_Val)
next
  case NInf
  with assms(1-3) show ?thesis by (simp add: fl_between_Val)
next
  case NaN
  with assms(4) show ?thesis by simp
qed

lemma rint_lower: "of_int a \<le> x \<Longrightarrow> a \<le> rint x"
proof -
  assume "of_int a \<le> x"
  then have "a \<le> \<lfloor>x\<rfloor>" by (simp add: le_floor_iff)
  then show ?thesis unfolding rint_def Let_def by simp
qed

lemma rint_upper: "x \<le> of_int b \<Longrightarrow> rint x \<le> b"
proof -
  assume le: "x \<le> of_int b"
  then have f: "\<lfloor>x\<rfloor> \<le> b" by (simp add: floor_le_iff)
  show ?thesis
  proof (cases "x = of_int \<lfloor>x\<rfloor>")
    case True
    then have "x - of_int \<lfloor>x\<rfloor> = 0" by simp
    then have "rint x = \<lfloor>x\<rfloor>" unfolding rint_def Let_def by simp
    with f show ?thesis by simp
  next
    case False
    then have "of_int \<lfloor>x\<rfloor> < x" using of_int_floor_le [of x] by linarith
    with le have "(of_int \<lfloor>x\<rfloor> :: real) < of_int b" by linarith
    then have "\<lfloor>x\<rfloor> < b" by simp
    then have "\<lfloor>x\<rfloor> + 1 \<le> b" by simp
    with f show ?thesis unfolding rint_def Let_def by simp
  qed
qed

lemma round_dp_1_between:
  assumes "fl_between (of_int a) (of_int b) x"
  shows "fl_between (of_int a) (of_int b) (round_dp 1 x)"
proof -
  from assms obtain v where v: "x = Val v" "of_int a \<le> v" "v \<le> of_int b"
    by (rule fl_between_cases)
  from v(2) have "of_int (a * 10) \<le> v * 10" by simp
  then have 1: "a * 10 \<le> rint (v * 10)" by (rule rint_lower)
  from v(3) have "v * 10 \<le> of_int (b * 10)" by simp
  then have 2: "rint (v * 10) \<le> b * 10" by (rule rint_upper)
  from 1 have "(of_int (a * 10) :: real) \<le> of_int (rint (v * 10))" by (simp only: of_int_le_iff)
  then have 3: "(of_int a :: real) \<le> of_int (rint (v * 10)) / 10" by simp
  from 2 have "(of_int (rint (v * 10)) :: real) \<le> of_int (b * 10)" by (simp only: of_int_le_iff)
  then have 4: "(of_int (rint (v * 10)) :: real) / 10 \<le> of_int b" by simp
  from 3 4 v(1) show ?thesis by (simp add: fl_between_Val)
qed

lemma round_dp_1_between_20_100:
  "fl_between 20 100 x \<Longrightarrow> fl_between 20 100 (round_dp 1 x)"
  using round_dp_1_between [of 20 100 x] by simp

lemma round_dp_1_between_0_100:
  "fl_between 0 100 x \<Longrightarrow> fl_between 0 100 (round_dp 1 x)"
  using round_dp_1_between [of 0 100 x] by simp

lemma bed_score_not_nan:
  "\<not> is_nan (fl_mul (fl_div (fillna 0 b) (Val 800)) (Val 30))"
  by (cases b) (simp_all add: inf_times_def)

lemma hospital_base_score_between: "fl_between 20 100 (hospital_base_score m r)"
proof -
  obtain v where v: "clip (fl_mul (fl_div (fillna 0 (h_beds_per_100k r)) (Val 800)) (Val 30)) 0 30
      = Val v"
    using bed_score_not_nan [of "h_beds_per_100k r"]
    by (cases "fl_mul (fl_div (fillna 0 (h_beds_per_100k r)) (Val 800)) (Val 30)") simp_all
  show ?thesis
    unfolding hospital_base_score_def Let_def v
    by (rule clip_between) simp_all
qed

lemma scaled_clip_between:
  assumes "fl_between 20 100 x" "20 \<le> lo" "lo \<le> hi" "hi \<le> 100"
  shows "fl_between 20 100 (clip (fl_mul x (Val c)) lo hi)"
proof -
  from assms(1) obtain v where "x = Val v" by (rule fl_between_cases)
  then have "\<not> is_nan (fl_mul x (Val c))" by simp
  with assms(2-4) show ?thesis by (intro clip_between) simp_all
qed

lemma adjust_zone_between:
  assumes "\<forall>r \<in> set g. fl_between 20 100 (h_health_access_index r)"
    and "\<And>z v. fl_between 20 100 (h_health_access_index z) \<Longrightarrow> f z = Some v
            \<Longrightarrow> fl_between 20 100 v"
  shows "\<forall>r \<in> set (adjust_zone name f g). fl_between 20 100 (h_health_access_index r)"
proof (cases "find (\<lambda>r. h_zone_name r = name) g")
  case None
  with assms(1) show ?thesis by (simp add: adjust_zone_def)
next
  case (Some z)
  then have "z \<in> set g" by (auto simp: find_Some_iff)
  with assms(1) have z: "fl_between 20 100 (h_health_access_index z)" by blast
  show ?thesis
  proof (cases "f z")
    case None
    with Some assms(1) show ?thesis by (simp add: adjust_zone_def)
  next
    case (Some v)
    with assms(2) [OF z] have "fl_between 20 100 v" by blast
    with Some \<open>find (\<lambda>r. h_zone_name r = name) g = Some z\<close> assms(1) show ?thesis
      by (auto simp: adjust_zone_def set_where_def)
  qed
qed

lemma set_where_between:
  assumes "\<forall>r \<in> set g. fl_between 20 100 (h_health_access_index r)"
    and "\<And>r. fl_between 20 100 (h_health_access_index r)
            \<Longrightarrow> fl_between 20 100 (h_health_access_index (upd r))"
  shows "\<forall>r \<in> set (set_where sel upd g). fl_between 20 100 (h_health_access_index r)"
  using assms by (auto simp: set_where_def)

text \<open>
  The hospital part of C10 and of C1: whatever the cells are, every health access index
  is a number from 20 to 100, before and after export.
\<close>

lemma hospital_index_between_20_and_100:
  "\<forall>r \<in> set (hospital_calculate_coverage_score grouped).
     fl_between 20 100 (h_health_access_index r)"
proof -
  define m where "m = (if list_max (map h_total_roads_km grouped) = 0 then 1
                       else list_max (map h_total_roads_km grouped))"
  define g1 where "g1 = map (\<lambda>r. r\<lparr>h_health_access_index := hospital_base_score m r\<rparr>) grouped"
  define g2 where "g2 = adjust_zone ''Central'' (\<lambda>z.
                 if h_num_hospitals z > 35 \<and> fl_gt (h_beds_per_100k z) (Val 300)
                 then Some (Val 100)
                 else Some (clip (fl_mul (h_health_access_index z) (Val 1.25)) 85 100)) g1"
  define g3 where "g3 = adjust_zone ''East'' (\<lambda>z.
                 if h_num_hospitals z > 40
                 then Some (clip (fl_mul (h_health_access_index z) (Val 2.2)) 82 86)
                 else None) g2"
  define g4 where "g4 = adjust_zone ''North'' (\<lambda>z.
                 if h_num_hospitals z > 40
                 then Some (clip (fl_mul (h_health_access_index z) (Val 1.85)) 70 80)
                 else None) g3"
  define g5 where "g5 = adjust_zone ''West'' (\<lambda>z.
                 if h_num_hospitals z > 60
                 then Some (clip (fl_mul (h_health_access_index z) (Val 0.92)) 54 56)
                 else None) g4"
  define g6 where "g6 = adjust_zone ''New Delhi'' (\<lambda>z.
                 Some (clip (fl_mul (h_health_access_index z) (Val 0.65)) 20 25)) g5"
  define g7 where "g7 = adjust_zone ''South'' (\<lambda>z. Some (Val 35.9)) g6"
  define g8 where "g8 = set_where
                 (\<lambda>r. h_num_hospitals r > 80 \<and> fl_gt (h_beds_per_100k r) (Val 500)
                      \<and> h_zone_name r \<noteq> ''South'')
                 (\<lambda>r. r\<lparr>h_health_access_index :=
                        clip (fl_mul (h_health_access_index r) (Val 1.2)) 75 100\<rparr>) g7"
  define g9 where "g9 = set_where
                 (\<lambda>r. h_num_hospitals r < 30 \<and> h_avg_hospitals_per_100k r < 2)
                 (\<lambda>r. r\<lparr>h_health_access_index :=
                        clip (fl_mul (h_health_access_index r) (Val 0.7)) 20 40\<rparr>) g8"
  have r: "hospital_calculate_coverage_score grouped
      = map (\<lambda>r. r\<lparr>h_health_access_index := round_dp 1 (h_health_access_index r)\<rparr>) g9"
    unfolding hospital_calculate_coverage_score_def Let_def
      g9_def g8_def g7_def g6_def g5_def g4_def g3_def g2_def g1_def m_def ..
  have 1: "\<forall>r \<in> set g1. fl_between 20 100 (h_health_access_index r)"
    unfolding g1_def by (simp add: hospital_base_score_between)
  have 2: "\<forall>r \<in> set g2. fl_between 20 100 (h_health_access_index r)"
    unfolding g2_def
    by (rule adjust_zone_between [OF 1])
       (auto simp: fl_between_Val scaled_clip_between split: if_splits)
  have 3: "\<forall>r \<in> set g3. fl_between 20 100 (h_health_access_index r)"
    unfolding g3_def
    by (rule adjust_zone_between [OF 2]) (auto simp: scaled_clip_between split: if_splits)
  have 4: "\<forall>r \<in> set g4. fl_between 20 100 (h_health_access_index r)"
    unfolding g4_def
    by (rule adjust_zone_between [OF 3]) (auto simp: scaled_clip_between split: if_splits)
  have 5: "\<forall>r \<in> set g5. fl_between 20 100 (h_health_access_index r)"
    unfolding g5_def
    by (rule adjust_zone_between [OF 4]) (auto simp: scaled_clip_between split: if_splits)
  have 6: "\<forall>r \<in> set g6. fl_between 20 100 (h_health_access_index r)"
    unfolding g6_def
    by (rule adjust_zone_between [OF 5]) (auto simp: scaled_clip_between)
  have 7: "\<forall>r \<in> set g7. fl_between 20 100 (h_health_access_index r)"
    unfolding g7_def
    by (rule adjust_zone_between [OF 6]) (auto simp: fl_between_Val)
  have 8: "\<forall>r \<in> set g8. fl_between 20 100 (h_health_access_index r)"
    unfolding g8_def
    by (rule set_where_between [OF 7]) (simp add: scaled_clip_between)
  have 9: "\<forall>r \<in> set g9. fl_between 20 100 (h_health_access_index r)"
    unfolding g9_def
    by (rule set_where_between [OF 8]) (simp add: scaled_clip_between)
  show ?thesis unfolding r
  proof
    fix x assume "x \<in> set (map (\<lambda>r. r\<lparr>h_health_access_index := round_dp 1 (h_health_access_index r)\<rparr>) g9)"
    then obtain y where y: "y \<in> set g9"
      and x: "h_health_access_index x = round_dp 1 (h_health_access_index y)" by auto
    from 9 y have "fl_between 20 100 (h_health_access_index y)" by blast
    then have "fl_between 20 100 (round_dp 1 (h_health_access_index y))"
      by (rule round_dp_1_between_20_100)
    then show "fl_between 20 100 (h_health_access_index x)" by (simp only: x)
  qed
qed

lemma hospital_export_between_20_and_100:
  "\<forall>r \<in> set (hospital_main mt st df). fl_between 20 100 (hr_predicted_coverage_score r)"
proof
  fix r assume "r \<in> set (hospital_main mt st df)"
  then obtain z where
    z: "z \<in> set (label_zones (hospital_calculate_coverage_score
          (fst (estimate_hospital_capacity mt st (hospital_aggregate_to_zones df)))))"
    and s: "hr_predicted_coverage_score r = round_dp 1 (h_health_access_index z)"
    unfolding hospital_main_def export_results_def by auto
  from z obtain y where
    y: "y \<in> set (hospital_calculate_coverage_score
          (fst (estimate_hospital_capacity mt st (hospital_aggregate_to_zones df))))"
    and e: "h_health_access_index z = h_health_access_index y"
    unfolding label_zones_def by auto
  from y hospital_index_between_20_and_100 have "fl_between 20 100 (h_health_access_index y)"
    by blast
  then have "fl_between 20 100 (round_dp 1 (h_health_access_index y))"
    by (rule round_dp_1_between_20_100)
  then show "fl_between 20 100 (hr_predicted_coverage_score r)" by (simp only: s e)
qed

lemma cleaned_ratio_is_number: "\<exists>v. fillna 0 (replace_inf 0 x) = Val v"
  by (cases x) simp_all

text \<open>The rule-based score of the school model is a number from 0 to 100.\<close>

lemma school_score_between_0_and_100:
  "fl_between 0 100 (f_coverage_score (features_row z p))"
proof -
  define d where "d = default_opt 2000 (Option.bind p population_6_17)"
  obtain a where a: "fillna 0 (replace_inf 0
      (fl_mul (fl_div (Val (real (num_schools z))) (Val d)) (Val 1000))) = Val a"
    using cleaned_ratio_is_number by blast
  obtain b where b: "fillna 0 (replace_inf 0
      (fl_mul (fl_div (Val (total_enrolment z)) (Val d)) (Val 100))) = Val b"
    using cleaned_ratio_is_number by blast
  have "\<not> is_nan (calculate_coverage_score (Val a) (Val b) s l)" for s l
    unfolding calculate_coverage_score_def Let_def fl_sub_def by simp
  then show ?thesis
    unfolding features_row_def Let_def school_zone.extend_def d_def [symmetric] a b
    by (simp add: clip_between)
qed

end
